theory Spec2Isabelle
  imports Main
begin

section \<open>Python values used by the pipeline\<close>

text \<open>
  A Python \<open>str\<close> is modelled as a \<open>string\<close>, one \<open>char\<close> per code point (the model
  covers the code points below 256). Exceptions are values: every constructor carries the
  text that \<open>str(e)\<close> yields, \<open>HTTPException\<close> its status code and detail.
\<close>

datatype exn =
    JSONDecodeError string
  | ConnectionError string
  | KeyError string
  | TypeError string
  | AttributeError string
  | HTTPException nat string
  | Exception string

definition digit_char :: "nat \<Rightarrow> char" where
  "digit_char d =
     (if d = 0 then CHR ''0'' else if d = 1 then CHR ''1'' else if d = 2 then CHR ''2''
      else if d = 3 then CHR ''3'' else if d = 4 then CHR ''4'' else if d = 5 then CHR ''5''
      else if d = 6 then CHR ''6'' else if d = 7 then CHR ''7'' else if d = 8 then CHR ''8''
      else CHR ''9'')"

text \<open>\<open>str(n)\<close> for a non-negative integer: its decimal digits.\<close>

fun str_nat :: "nat \<Rightarrow> string" where
  "str_nat n = (if n < 10 then [digit_char n] else str_nat (n div 10) @ [digit_char (n mod 10)])"

declare str_nat.simps [simp del]

fun str_exn :: "exn \<Rightarrow> string" where
  "str_exn (JSONDecodeError m) = m"
| "str_exn (ConnectionError m) = m"
| "str_exn (KeyError m) = m"
| "str_exn (TypeError m) = m"
| "str_exn (AttributeError m) = m"
| "str_exn (HTTPException code detail) = str_nat code @ '': '' @ detail"
| "str_exn (Exception m) = m"

text \<open>
  The characters \<open>str.strip()\<close> removes: \<open>str.isspace\<close> holds of them (tab to carriage
  return, the four separators 0x1C to 0x1F, space, NEL and the no-break space).
\<close>

definition py_isspace :: "char \<Rightarrow> bool" where
  "py_isspace c = (of_char c \<in> {9, 10, 11, 12, 13, 28, 29, 30, 31, 32, 133, 160 :: nat})"

definition strip :: "string \<Rightarrow> string" where
  "strip s = rev (dropWhile py_isspace (rev (dropWhile py_isspace s)))"

text \<open>\<open>s[i:]\<close>: a negative start counts from the end and is clamped at the beginning.\<close>

definition slice_from :: "int \<Rightarrow> 'a list \<Rightarrow> 'a list" where
  "slice_from i s = (if i < 0 then drop (nat (int (length s) + i)) s else drop (nat i) s)"

text \<open>\<open>s[:k]\<close>: a negative end counts from the end.\<close>

definition slice_to :: "int \<Rightarrow> 'a list \<Rightarrow> 'a list" where
  "slice_to k s = (if k < 0 then take (nat (int (length s) + k)) s else take (nat k) s)"

text \<open>\<open>sep.join(xs)\<close>.\<close>

fun str_join :: "string \<Rightarrow> string list \<Rightarrow> string" where
  "str_join sep [] = []"
| "str_join sep [x] = x"
| "str_join sep (x # y # ys) = x @ sep @ str_join sep (y # ys)"

text \<open>
  \<open>s.replace(c, r)\<close> for a pattern \<open>c\<close> of one character: every occurrence is replaced,
  left to right.
\<close>

definition str_replace_char :: "char \<Rightarrow> string \<Rightarrow> string \<Rightarrow> string" where
  "str_replace_char c r s = concat (map (\<lambda>x. if x = c then r else [x]) s)"

text \<open>
  The values \<open>json.loads\<close> produces and \<open>json.dumps\<close> consumes. A \<open>dict\<close> is an
  association list in insertion order; a float is kept as its literal.
\<close>

datatype json =
    JNone
  | JBool bool
  | JInt int
  | JFloat string
  | JStr string
  | JList "json list"
  | JDict "(string \<times> json) list"

text \<open>\<open>v[key]\<close> for a string key: only a \<open>dict\<close> that has the key answers.\<close>

fun getitem :: "json \<Rightarrow> string \<Rightarrow> exn + json" where
  "getitem (JDict kvs) k =
     (case map_of kvs k of
        None \<Rightarrow> Inl (KeyError ([CHR 0x27] @ k @ [CHR 0x27]))
      | Some v \<Rightarrow> Inr v)"
| "getitem (JList xs) k = Inl (TypeError ''list indices must be integers or slices, not str'')"
| "getitem (JStr s) k = Inl (TypeError ''string indices must be integers'')"
| "getitem v k = Inl (TypeError ''object is not subscriptable'')"

section \<open>The chunk store: \<open>app/utils/bigquery_storage.py\<close>\<close>

record chunk =
  chunk_id :: string
  doc_id :: string
  text' :: string

text \<open>A row as \<open>search_chunks\<close> selects it; \<open>TextChunk\<close> has the same five fields.\<close>

record text_chunk = chunk +
  filename :: string
  original_pdf_ipfs_path :: string

text \<open>A row as \<open>store_chunks_in_bigquery\<close> inserts it.\<close>

record bq_row = text_chunk +
  gcs_path :: string
  pdf_metadata :: string

text \<open>
  The BigQuery client is outside the repository. \<open>insert_rows_json table rows\<close> raises or
  returns the per-row errors (each kept as its \<open>repr\<close>); \<open>query_job i sql q lim\<close> is the
  \<open>i\<close>-th query job run since the request began, iterated to the end: it raises or
  returns the rows, and two jobs with the same text may answer differently.
\<close>

record bq_client =
  insert_rows_json :: "string \<Rightarrow> bq_row list \<Rightarrow> exn + string list"
  query_job :: "nat \<Rightarrow> string \<Rightarrow> string \<Rightarrow> int \<Rightarrow> exn + text_chunk list"

record storage =
  bq_client :: bq_client
  bq_table :: string
  chunk_size :: int
  chunk_overlap :: int
  gcs_bucket_name :: string

text \<open>The library functions and the environment that the modules read.\<close>

record lib =
  sent_tokenize :: "string \<Rightarrow> exn + string list"
  json_dumps :: "json \<Rightarrow> exn + string"
  json_loads :: "string \<Rightarrow> exn + json"
  uuid4 :: string
  path_exists :: "string \<Rightarrow> bool"
  client_from_service_account_json :: "string \<Rightarrow> exn + bq_client"
  client_for_project :: "string \<Rightarrow> exn + bq_client"
  getenv_GCS_BUCKET_NAME :: string

text \<open>\<open>BigQueryPDFChunkStorage.__init__\<close>; \<open>credentials_path\<close> may be \<open>None\<close>.\<close>

definition BigQueryPDFChunkStorage ::
  "lib \<Rightarrow> string \<Rightarrow> string \<Rightarrow> string \<Rightarrow> string option \<Rightarrow> exn + storage" where
  "BigQueryPDFChunkStorage L project_id bq_dataset table credentials_path =
     (case (case credentials_path of
              None \<Rightarrow> client_for_project L project_id
            | Some p \<Rightarrow>
                if p \<noteq> [] \<and> path_exists L p then client_from_service_account_json L p
                else client_for_project L project_id) of
        Inl e \<Rightarrow> Inl e
      | Inr client \<Rightarrow>
          Inr \<lparr>bq_client = client,
               bq_table = project_id @ ''.'' @ bq_dataset @ ''.'' @ table,
               chunk_size = 1000,
               chunk_overlap = 100,
               gcs_bucket_name = getenv_GCS_BUCKET_NAME L\<rparr>)"

subsection \<open>\<open>chunk_text\<close>\<close>

definition make_chunk :: "string \<Rightarrow> nat \<Rightarrow> string \<Rightarrow> chunk" where
  "make_chunk d n current_chunk =
     \<lparr>chunk_id = d @ ''_'' @ str_nat n, doc_id = d, text' = strip current_chunk\<rparr>"

text \<open>One pass of the loop over the sentences; the state is \<open>(chunks, current_chunk, chunk_id)\<close>.\<close>

fun chunk_sentence ::
  "storage \<Rightarrow> string \<Rightarrow> chunk list \<times> string \<times> nat \<Rightarrow> string \<Rightarrow> chunk list \<times> string \<times> nat" where
  "chunk_sentence S d (chunks, current_chunk, n) sentence =
     (if int (length current_chunk) + int (length sentence) \<le> chunk_size S
      then (chunks, current_chunk @ sentence @ '' '', n)
      else if current_chunk \<noteq> []
      then (chunks @ [make_chunk d n current_chunk],
            (if int (length current_chunk) > chunk_overlap S
             then slice_from (- chunk_overlap S) current_chunk
             else current_chunk) @ sentence @ '' '',
            n + 1)
      else (chunks, sentence @ '' '', n))"

definition chunk_sentences :: "storage \<Rightarrow> string list \<Rightarrow> string \<Rightarrow> chunk list" where
  "chunk_sentences S sentences d =
     (case foldl (chunk_sentence S d) ([], [], 0) sentences of
        (chunks, current_chunk, n) \<Rightarrow>
          if current_chunk \<noteq> [] then chunks @ [make_chunk d n current_chunk] else chunks)"

definition chunk_text :: "lib \<Rightarrow> storage \<Rightarrow> string \<Rightarrow> string \<Rightarrow> exn + chunk list" where
  "chunk_text L S text d =
     (case sent_tokenize L text of
        Inl e \<Rightarrow> Inl e
      | Inr sentences \<Rightarrow> Inr (chunk_sentences S sentences d))"

subsection \<open>\<open>store_chunks_in_bigquery\<close> and \<open>process_pdf_for_bigquery\<close>\<close>

text \<open>
  The result dictionaries: a key that is absent (or holds \<open>None\<close>) is \<open>None\<close>.
\<close>

record bq_result =
  success :: bool
  result_doc_id :: "string option"
  chunks_count :: "nat option"
  error :: "string option"

text \<open>\<open>f"{errors}"\<close>: the \<open>repr\<close> of a list.\<close>

definition repr_list :: "string list \<Rightarrow> string" where
  "repr_list xs = ''['' @ str_join '', '' xs @ '']''"

fun make_rows ::
  "lib \<Rightarrow> string \<Rightarrow> chunk list \<Rightarrow> json \<Rightarrow> string \<Rightarrow> string \<Rightarrow> bq_row list \<Rightarrow> exn + bq_row list" where
  "make_rows L bucket_name [] metadata fname ipfs_path rows = Inr rows"
| "make_rows L bucket_name (c # cs) metadata fname ipfs_path rows =
     (case json_dumps L metadata of
        Inl e \<Rightarrow> Inl e
      | Inr md \<Rightarrow>
          make_rows L bucket_name cs metadata fname ipfs_path
            (rows @ [\<lparr>chunk_id = chunk_id c, doc_id = doc_id c, text' = text' c,
                       filename = fname, original_pdf_ipfs_path = ipfs_path,
                       gcs_path = ''gs://'' @ bucket_name @ ''/'' @ doc_id c @ ''/'' @ chunk_id c @ ''.txt'',
                       pdf_metadata = md\<rparr>]))"

definition store_chunks_in_bigquery ::
  "lib \<Rightarrow> storage \<Rightarrow> chunk list \<Rightarrow> json \<Rightarrow> string \<Rightarrow> string \<Rightarrow> bq_result" where
  "store_chunks_in_bigquery L S chunks metadata fname ipfs_path =
     (let bucket_name = (if gcs_bucket_name S \<noteq> [] then gcs_bucket_name S else ''placeholder-bucket'')
      in case make_rows L bucket_name chunks metadata fname ipfs_path [] of
           Inl e \<Rightarrow>
             \<lparr>success = False, result_doc_id = None, chunks_count = None, error = Some (str_exn e)\<rparr>
         | Inr rows \<Rightarrow>
             (case insert_rows_json (bq_client S) (bq_table S) rows of
                Inl e \<Rightarrow>
                  \<lparr>success = False, result_doc_id = None, chunks_count = None,
                   error = Some (str_exn e)\<rparr>
              | Inr errors \<Rightarrow>
                  if errors \<noteq> []
                  then \<lparr>success = False, result_doc_id = None, chunks_count = None,
                        error = Some (''BigQuery insert errors: '' @ repr_list errors)\<rparr>
                  else \<lparr>success = True, result_doc_id = None, chunks_count = Some (length rows),
                        error = None\<rparr>))"


subsection \<open>\<open>search_chunks\<close>\<close>

definition special_chars :: "char list" where
  "special_chars =
     [CHR 0x5C, CHR ''?'', CHR ''!'', CHR 0x22, CHR 0x27, CHR ''+'', CHR ''-'', CHR ''='',
      CHR ''&'', CHR ''|'', CHR ''>'', CHR ''<'', CHR ''('', CHR '')'', CHR ''{'', CHR ''}'',
      CHR ''['', CHR '']'', CHR ''^'', CHR ''~'', CHR ''*'', CHR '':'', CHR ''/'']"

text \<open>The loop \<open>for char in special_chars: escaped_query = escaped_query.replace(...)\<close>.\<close>

definition escape_query :: "string \<Rightarrow> string" where
  "escape_query q =
     foldl (\<lambda>escaped_query c. str_replace_char c [CHR 0x5C, c] escaped_query) q special_chars"

definition query_str :: "storage \<Rightarrow> string" where
  "query_str S =
     ''\<newline>'' @
     ''                SELECT chunk_id, doc_id, filename, original_pdf_ipfs_path, text\<newline>'' @
     ''                FROM `'' @ bq_table S @ ''`\<newline>'' @
     ''                WHERE SEARCH(text, @query)\<newline>'' @
     ''                LIMIT @limit\<newline>'' @
     ''            ''"

text \<open>
  \<open>search_chunks\<close> as the \<open>i\<close>-th search of a request. The query is whatever the caller
  passes: a value that is not a \<open>str\<close> has no \<open>replace\<close>, and the \<open>AttributeError\<close> is
  caught like every other exception.
\<close>

definition search_chunks :: "storage \<Rightarrow> nat \<Rightarrow> json \<Rightarrow> int \<Rightarrow> text_chunk list" where
  "search_chunks S i q lim =
     (case q of
        JStr s \<Rightarrow>
          (case query_job (bq_client S) i (query_str S) (escape_query s) lim of
             Inl e \<Rightarrow> []
           | Inr rows \<Rightarrow> rows)
      | _ \<Rightarrow> [])"

section \<open>The language model service: \<open>app/utils/llm.py\<close>\<close>

text \<open>
  \<open>self.model\<close> is \<open>None\<close> or a generative model. \<open>generate_content\<close> followed by
  \<open>response.text\<close> is outside the repository: the \<open>n\<close>-th call made during a request
  raises or yields a text, and the same prompt may be answered differently by two calls.
  Every method takes the number of calls made so far and returns the new number with
  its result.
\<close>

record llm_service =
  model :: "(nat \<Rightarrow> string \<Rightarrow> exn + string) option"

definition is_available :: "llm_service \<Rightarrow> bool" where
  "is_available svc = (model svc \<noteq> None)"

text \<open>\<open>self.model.generate_content(prompt)\<close> and \<open>response.text\<close>, as the \<open>n\<close>-th call.\<close>

definition generate_content :: "llm_service \<Rightarrow> nat \<Rightarrow> string \<Rightarrow> exn + string" where
  "generate_content svc n prompt =
     (case model svc of
        None \<Rightarrow> Inl (AttributeError ''object has no attribute generate_content'')
      | Some m \<Rightarrow> m n prompt)"

subsection \<open>\<open>analyze_query_intent\<close>\<close>

definition intent_prompt :: "string \<Rightarrow> string" where
  \<open>intent_prompt query =
     ''\<newline>'' @
     ''            Analyze this query about case files and categorize its intent. Output a JSON object with the following structure:\<newline>'' @
     ''            {\<newline>'' @
     ''              "type": "[one of: comparison, pattern, timeline, entity, relationship, general]",\<newline>'' @
     ''              "search_terms": "extracted keywords for search",\<newline>'' @
     ''              "cases_to_compare": ["case1", "case2", ...] (only if type is comparison),\<newline>'' @
     ''              "entities_to_track": ["entity1", "entity2", ...] (only if relevant)\<newline>'' @
     ''            }\<newline>'' @
     ''            \<newline>'' @
     ''            Only include relevant fields based on the query type.\<newline>'' @
     ''\<newline>'' @
     ''            Example intents:\<newline>'' @
     ''            - comparison: Looking for similarities or differences between specific cases\<newline>'' @
     ''            - pattern: Seeking recurring patterns across cases\<newline>'' @
     ''            - timeline: Requesting chronological analysis \<newline>'' @
     ''            - entity: Asking about specific persons, organizations, etc.\<newline>'' @
     ''            - relationship: Inquiring about connections between entities\<newline>'' @
     ''            - general: General case information queries\<newline>'' @
     ''\<newline>'' @
     ''            User query: "'' @
     query @
     ''"\<newline>            ''\<close>

text \<open>The dictionary \<open>{"type": "general", "search_terms": query}\<close>.\<close>

definition general_intent :: "string \<Rightarrow> json" where
  "general_intent query = JDict [(''type'', JStr ''general''), (''search_terms'', JStr query)]"

text \<open>
  The body of the \<open>try\<close> block. The inner handler catches \<open>JSONDecodeError\<close> only; an
  exception of \<open>json.loads\<close> of another class, and the one that \<open>intent_data['type']\<close>
  raises inside the log message, leave the body.
\<close>

definition analyze_query_intent_try :: "lib \<Rightarrow> llm_service \<Rightarrow> nat \<Rightarrow> string \<Rightarrow> exn + json" where
  "analyze_query_intent_try L svc n query =
     (case generate_content svc n (intent_prompt query) of
        Inl e \<Rightarrow> Inl e
      | Inr text \<Rightarrow>
          (case json_loads L (strip text) of
             Inl (JSONDecodeError m) \<Rightarrow> Inr (general_intent query)
           | Inl e \<Rightarrow> Inl e
           | Inr intent_data \<Rightarrow>
               (case getitem intent_data ''type'' of
                  Inl e \<Rightarrow> Inl e
                | Inr t \<Rightarrow> Inr intent_data)))"

definition analyze_query_intent :: "lib \<Rightarrow> llm_service \<Rightarrow> nat \<Rightarrow> string \<Rightarrow> json \<times> nat" where
  "analyze_query_intent L svc n query =
     (if \<not> is_available svc then (general_intent query, n)
      else case analyze_query_intent_try L svc n query of
             Inl e \<Rightarrow> (general_intent query, n + 1)
           | Inr intent \<Rightarrow> (intent, n + 1))"

subsection \<open>\<open>enhance_search_query\<close>\<close>

definition comparison_keywords_prompt :: "string \<Rightarrow> string" where
  \<open>comparison_keywords_prompt query =
     ''\<newline>'' @
     ''                Extract the most specific keywords from this case comparison query.\<newline>'' @
     ''                Focus on case identifiers, unique details, entities mentioned, and key facts.\<newline>'' @
     ''                Only output the search terms with no explanation.\<newline>'' @
     ''                \<newline>'' @
     ''                User query about comparing cases: "'' @
     query @
     ''"\<newline>                ''\<close>

definition pattern_keywords_prompt :: "string \<Rightarrow> string" where
  \<open>pattern_keywords_prompt query =
     ''\<newline>'' @
     ''                Extract pattern-related keywords from this query about recurring elements across cases.\<newline>'' @
     ''                Focus on behaviors, methods, sequences, techniques or characteristics mentioned.\<newline>'' @
     ''                Only output the search terms with no explanation.\<newline>'' @
     ''                \<newline>'' @
     ''                User query about patterns: "'' @
     query @
     ''"\<newline>                ''\<close>

definition general_keywords_prompt :: "string \<Rightarrow> string" where
  \<open>general_keywords_prompt query =
     ''\<newline>'' @
     ''                Extract the most relevant search keywords from this case file query.\<newline>'' @
     ''                Focus on entities, actions, dates, locations, and specific case details.\<newline>'' @
     ''                Return only search terms without explanation or commentary.\<newline>'' @
     ''                \<newline>'' @
     ''                User query: "'' @
     query @
     ''"\<newline>                ''\<close>

definition enhance_search_query :: "lib \<Rightarrow> llm_service \<Rightarrow> nat \<Rightarrow> string \<Rightarrow> string \<times> nat" where
  "enhance_search_query L svc n query =
     (if \<not> is_available svc then (query, n)
      else case analyze_query_intent L svc n query of
        (intent, n1) \<Rightarrow>
          (case getitem intent ''type'' of
             Inl e \<Rightarrow> (query, n1)
           | Inr t \<Rightarrow>
               (let prompt = (if t = JStr ''comparison'' then comparison_keywords_prompt query
                              else if t = JStr ''pattern'' then pattern_keywords_prompt query
                              else general_keywords_prompt query)
                in case generate_content svc n1 prompt of
                     Inl e \<Rightarrow> (query, n1 + 1)
                   | Inr text \<Rightarrow> (strip text, n1 + 1))))"

subsection \<open>\<open>generate_multi_query\<close>\<close>

definition multi_query_prompt :: "string \<Rightarrow> string" where
  \<open>multi_query_prompt query =
     ''\<newline>'' @
     ''            Generate 3 different search queries to find relevant information about this question related to case files.\<newline>'' @
     ''            Format the output as a JSON array of strings, each representing a different query approach.\<newline>'' @
     ''            No explanation or commentary, just the JSON array.\<newline>'' @
     ''            \<newline>'' @
     ''            User question: "'' @
     query @
     ''"\<newline>            ''\<close>

text \<open>
  The result is the parsed list as it is: nothing checks that its elements are strings.
\<close>

definition generate_multi_query :: "lib \<Rightarrow> llm_service \<Rightarrow> nat \<Rightarrow> string \<Rightarrow> json list \<times> nat" where
  "generate_multi_query L svc n query =
     (if \<not> is_available svc then ([JStr query], n)
      else case generate_content svc n (multi_query_prompt query) of
        Inl e \<Rightarrow> ([JStr query], n + 1)
      | Inr text \<Rightarrow>
          (case json_loads L (strip text) of
             Inl e \<Rightarrow> ([JStr query], n + 1)
           | Inr (JList queries) \<Rightarrow>
               if length queries > 0 then (queries, n + 1) else ([JStr query], n + 1)
           | Inr v \<Rightarrow> ([JStr query], n + 1)))"

subsection \<open>\<open>generate_rag_prompt\<close> and \<open>generate_response\<close>\<close>

record chat_message =
  role :: string
  content :: string

text \<open>
  The dictionary \<open>cases\<close>, in insertion order: a chunk joins the list of its document,
  and a document not seen before is added at the end.
\<close>

definition add_case :: "(string \<times> text_chunk list) list \<Rightarrow> text_chunk \<Rightarrow> (string \<times> text_chunk list) list" where
  "add_case cases c =
     (let cases1 = (if map_of cases (doc_id c) = None then cases @ [(doc_id c, [])] else cases)
      in map (\<lambda>(k, v). if k = doc_id c then (k, v @ [c]) else (k, v)) cases1)"

definition context_section :: "string \<times> text_chunk list \<Rightarrow> string" where
  "context_section kv =
     (case kv of (d, doc_chunks) \<Rightarrow>
        (let fname = (case doc_chunks of [] \<Rightarrow> ''Unknown'' | c # cs \<Rightarrow> filename c);
             combined_text = str_join ''\<newline>\<newline>'' (map text' doc_chunks)
         in ''CASE FILE: '' @ fname @ ''\<newline>CASE ID: '' @ d @ ''\<newline>CONTENT:\<newline>'' @ combined_text))"

definition conversation_history :: "chat_message list option \<Rightarrow> string" where
  "conversation_history history =
     (case history of
        None \<Rightarrow> ''''
      | Some msgs \<Rightarrow>
          if length msgs > 0
          then ''\<newline>\<newline>Conversation history:\<newline>'' @
               str_join ''\<newline>'' (map (\<lambda>msg. role msg @ '': '' @ content msg) msgs) @
               ''\<newline>\<newline>''
          else '''')"

definition system_role :: "json \<Rightarrow> string" where
  "system_role t =
     (if t = JStr ''comparison'' then
        ''You are an advanced case analysis assistant specialized in comparing legal cases. \<newline>'' @
        ''When analyzing similarities and differences between cases, focus on:\<newline>'' @
        ''- Procedural similarities/differences\<newline>'' @
        ''- Factual parallels\<newline>'' @
        ''- Related entities across cases\<newline>'' @
        ''- Similar legal arguments or precedents\<newline>'' @
        ''- Timeline alignment or divergence\<newline>'' @
        ''- Evidence patterns''
      else if t = JStr ''pattern'' then
        ''You are an advanced case analysis assistant specialized in identifying patterns across cases.\<newline>'' @
        ''Identify recurring elements such as:\<newline>'' @
        ''- Behavioral patterns of involved parties\<newline>'' @
        ''- Procedural similarities\<newline>'' @
        ''- Common tactics or methodologies\<newline>'' @
        ''- Temporal patterns or sequences\<newline>'' @
        ''- Geographic connections\<newline>'' @
        ''- Recurring entities or relationships''
      else if t = JStr ''timeline'' \<or> t = JStr ''relationship'' then
        ''You are an advanced case analysis assistant specialized in analyzing relationships and chronology.\<newline>'' @
        ''Focus on:\<newline>'' @
        ''- Chronological sequence of events across cases\<newline>'' @
        ''- Connections between entities\<newline>'' @
        ''- Cause-effect relationships\<newline>'' @
        ''- Network analysis of involved parties\<newline>'' @
        ''- Temporal proximity of related events''
      else
        ''You are an advanced case analysis assistant specialized in extracting insights from legal case files.\<newline>'' @
        ''Provide accurate, concise answers based solely on the case file content.'')"

definition rag_prompt :: "string \<Rightarrow> string \<Rightarrow> string \<Rightarrow> string \<Rightarrow> string" where
  "rag_prompt role_text history_text context_text query =
     role_text @
     ''\<newline>'' @
     ''\<newline>'' @
     ''Format your response as a professional report on the case file contents.\<newline>'' @
     ''Use only the information from the provided case files to answer the question.\<newline>'' @
     ''If you cannot find the answer in the case files, admit that you don'' @
     [CHR 0x27] @
     ''t know rather than making up information.\<newline>\<newline>'' @
     history_text @
     ''\<newline>Here are the relevant case file contents:\<newline>\<newline>'' @
     context_text @
     ''\<newline>\<newline>Question: '' @
     query @
     ''\<newline>\<newline>Answer:''"

definition generate_rag_prompt ::
  "lib \<Rightarrow> llm_service \<Rightarrow> nat \<Rightarrow> string \<Rightarrow> text_chunk list \<Rightarrow> chat_message list option \<Rightarrow>
   (exn + string) \<times> nat" where
  "generate_rag_prompt L svc n query chunks history =
     (case analyze_query_intent L svc n query of
        (intent, n1) \<Rightarrow>
          (let cases = foldl add_case [] chunks;
               context_text = str_join ''\<newline>\<newline>============================\<newline>\<newline>''
                                (map context_section cases);
               history_text = conversation_history history
           in case getitem intent ''type'' of
                Inl e \<Rightarrow> (Inl e, n1)
              | Inr t \<Rightarrow> (Inr (rag_prompt (system_role t) history_text context_text query), n1)))"

definition generate_response ::
  "lib \<Rightarrow> llm_service \<Rightarrow> nat \<Rightarrow> string \<Rightarrow> text_chunk list \<Rightarrow> chat_message list option \<Rightarrow>
   string \<times> nat" where
  "generate_response L svc n query chunks history =
     (if \<not> is_available svc
      then (''LLM service is not available. Please set the GEMINI_API_KEY environment variable.'', n)
      else case generate_rag_prompt L svc n query chunks history of
        (Inl e, n1) \<Rightarrow> (''Error generating response: '' @ str_exn e, n1)
      | (Inr prompt, n1) \<Rightarrow>
          (case generate_content svc n1 prompt of
             Inl e \<Rightarrow> (''Error generating response: '' @ str_exn e, n1 + 1)
           | Inr text \<Rightarrow> (text, n1 + 1)))"

section \<open>The search and chat endpoints: \<open>app/api/endpoints/documents.py\<close>\<close>

record config =
  BQ_PROJECT_ID :: string
  BQ_DATASET :: string
  BQ_TABLE :: string
  BQ_CREDENTIALS_PATH :: string

text \<open>\<open>all([BQ_PROJECT_ID, BQ_DATASET, BQ_TABLE])\<close>: no empty string among the three.\<close>

definition bq_configured :: "config \<Rightarrow> bool" where
  "bq_configured cfg = (BQ_PROJECT_ID cfg \<noteq> [] \<and> BQ_DATASET cfg \<noteq> [] \<and> BQ_TABLE cfg \<noteq> [])"

definition new_storage :: "lib \<Rightarrow> config \<Rightarrow> exn + storage" where
  "new_storage L cfg =
     BigQueryPDFChunkStorage L (BQ_PROJECT_ID cfg) (BQ_DATASET cfg) (BQ_TABLE cfg)
       (Some (BQ_CREDENTIALS_PATH cfg))"

subsection \<open>The retrieval loop\<close>

text \<open>
  The inner loop \<open>for chunk in chunks\<close> on the state \<open>(all_chunks, seen_chunk_ids)\<close>.
\<close>

fun dedup_chunks ::
  "text_chunk list \<Rightarrow> text_chunk list \<times> string set \<Rightarrow> text_chunk list \<times> string set" where
  "dedup_chunks [] st = st"
| "dedup_chunks (c # cs) (all_chunks, seen_chunk_ids) =
     (if chunk_id c \<notin> seen_chunk_ids
      then dedup_chunks cs (all_chunks @ [c], insert (chunk_id c) seen_chunk_ids)
      else dedup_chunks cs (all_chunks, seen_chunk_ids))"

text \<open>
  The outer loop \<open>for query in search_queries\<close>, every search with the limit \<open>lim\<close>. The
  third component of the state is the list of the searches made so far, each with the
  query and the limit it was given; the next search is the one numbered by its length.
\<close>

fun search_all ::
  "storage \<Rightarrow> int \<Rightarrow> json list \<Rightarrow> text_chunk list \<times> string set \<times> (json \<times> int) list \<Rightarrow>
   text_chunk list \<times> string set \<times> (json \<times> int) list" where
  "search_all S lim [] st = st"
| "search_all S lim (q # qs) (all_chunks, seen_chunk_ids, searches) =
     (case dedup_chunks (search_chunks S (length searches) q lim) (all_chunks, seen_chunk_ids) of
        (all_chunks1, seen1) \<Rightarrow> search_all S lim qs (all_chunks1, seen1, searches @ [(q, lim)]))"

subsection \<open>\<open>search_document_chunks\<close>\<close>

text \<open>
  The first part of the \<open>try\<close> block. \<open>search_queries\<close> is bound only when the model is
  available: \<open>None\<close> stands for the unbound name, and \<open>enhanced_query\<close> is then the
  request's query.
\<close>

definition is_multi_query_intent :: "json \<Rightarrow> bool" where
  "is_multi_query_intent t =
     (t = JStr ''comparison'' \<or> t = JStr ''pattern'' \<or> t = JStr ''relationship'')"

definition search_plan ::
  "lib \<Rightarrow> llm_service \<Rightarrow> string \<Rightarrow> (exn + json list option) \<times> nat" where
  "search_plan L svc q =
     (if \<not> is_available svc then (Inr None, 0)
      else case analyze_query_intent L svc 0 q of
        (intent, n1) \<Rightarrow>
          (case getitem intent ''type'' of
             Inl e \<Rightarrow> (Inl e, n1)
           | Inr t \<Rightarrow>
               if is_multi_query_intent t
               then (case generate_multi_query L svc n1 q of
                       (search_queries, n2) \<Rightarrow> (Inr (Some search_queries), n2))
               else (case enhance_search_query L svc n1 q of
                       (enhanced_query, n2) \<Rightarrow> (Inr (Some [JStr enhanced_query]), n2))))"

text \<open>
  The result of an endpoint: what it returns or raises, the number of calls made to the
  language model, and the searches made.
\<close>

definition search_document_chunks_try ::
  "lib \<Rightarrow> config \<Rightarrow> llm_service \<Rightarrow> string \<Rightarrow> int \<Rightarrow>
   (exn + text_chunk list) \<times> nat \<times> (json \<times> int) list" where
  "search_document_chunks_try L cfg svc q limit =
     (case search_plan L svc q of
        (Inl e, n) \<Rightarrow> (Inl e, n, [])
      | (Inr plan, n) \<Rightarrow>
          (case new_storage L cfg of
             Inl e \<Rightarrow> (Inl e, n, [])
           | Inr bq_storage \<Rightarrow>
               (case plan of
                  Some search_queries \<Rightarrow>
                    (case search_all bq_storage (limit div int (length search_queries) + 1)
                            search_queries ([], {}, []) of
                       (all_chunks, seen_chunk_ids, searches) \<Rightarrow>
                         (Inr (slice_to limit all_chunks), n, searches))
                | None \<Rightarrow>
                    (Inr (slice_to limit (search_chunks bq_storage 0 (JStr q) limit)), n,
                     [(JStr q, limit)]))))"

definition search_document_chunks ::
  "lib \<Rightarrow> config \<Rightarrow> llm_service \<Rightarrow> string \<Rightarrow> int \<Rightarrow>
   (exn + text_chunk list) \<times> nat \<times> (json \<times> int) list" where
  "search_document_chunks L cfg svc q limit =
     (if \<not> bq_configured cfg
      then (Inl (HTTPException 500
                  (''BigQuery configuration not set. Please set BQ_PROJECT_ID, BQ_DATASET, '' @
                   ''and BQ_TABLE environment variables.'')), 0, [])
      else case search_document_chunks_try L cfg svc q limit of
        (Inl e, n, searches) \<Rightarrow>
          (Inl (HTTPException 500 (''Error searching case file chunks: '' @ str_exn e)), n, searches)
      | (Inr results, n, searches) \<Rightarrow> (Inr results, n, searches))"

subsection \<open>\<open>chat_with_documents\<close>\<close>

datatype chat_response = ChatResponse (answer: string) (response_chunks: "text_chunk list")

definition no_information_answer :: string where
  "no_information_answer =
     ''I couldn'' @ [CHR 0x27] @ ''t find any relevant information in the case files to answer '' @
     ''your question. Please try rephrasing your question or provide more specific details.''"

definition chat_plan :: "lib \<Rightarrow> llm_service \<Rightarrow> string \<Rightarrow> (exn + json list) \<times> nat" where
  "chat_plan L svc q =
     (if \<not> is_available svc
      then (Inl (HTTPException 500
                  (''LLM service not available. Please set the GEMINI_API_KEY environment '' @
                   ''variable.'')), 0)
      else case analyze_query_intent L svc 0 q of
        (intent, n1) \<Rightarrow>
          (case getitem intent ''type'' of
             Inl e \<Rightarrow> (Inl e, n1)
           | Inr t \<Rightarrow>
               if is_multi_query_intent t
               then (case generate_multi_query L svc n1 q of
                       (search_queries, n2) \<Rightarrow> (Inr search_queries, n2))
               else (case enhance_search_query L svc n1 q of
                       (enhanced_query, n2) \<Rightarrow> (Inr [JStr enhanced_query], n2))))"

text \<open>
  The end of the \<open>try\<close> block, from \<open>if not text_chunks\<close> on: the answer to the query
  \<open>q\<close> from the chunks retrieved, when \<open>n\<close> calls have been made to the language model.
\<close>

definition chat_answer ::
  "lib \<Rightarrow> llm_service \<Rightarrow> nat \<Rightarrow> string \<Rightarrow> text_chunk list \<Rightarrow> chat_message list option \<Rightarrow>
   chat_response \<times> nat" where
  "chat_answer L svc n q text_chunks history =
     (if text_chunks = [] then (ChatResponse no_information_answer [], n)
      else case generate_response L svc n q text_chunks history of
             (a, n1) \<Rightarrow> (ChatResponse a text_chunks, n1))"

definition chat_with_documents_try ::
  "lib \<Rightarrow> config \<Rightarrow> llm_service \<Rightarrow> string \<Rightarrow> chat_message list option \<Rightarrow>
   (exn + chat_response) \<times> nat \<times> (json \<times> int) list" where
  "chat_with_documents_try L cfg svc q history =
     (case chat_plan L svc q of
        (Inl e, n) \<Rightarrow> (Inl e, n, [])
      | (Inr search_queries, n) \<Rightarrow>
          (case new_storage L cfg of
             Inl e \<Rightarrow> (Inl e, n, [])
           | Inr bq_storage \<Rightarrow>
               (case search_all bq_storage 3 search_queries ([], {}, []) of
                  (all_chunks, seen_chunk_ids, searches) \<Rightarrow>
                    (case chat_answer L svc n q all_chunks history of
                       (response, n1) \<Rightarrow> (Inr response, n1, searches)))))"

definition chat_with_documents ::
  "lib \<Rightarrow> config \<Rightarrow> llm_service \<Rightarrow> string \<Rightarrow> chat_message list option \<Rightarrow>
   (exn + chat_response) \<times> nat \<times> (json \<times> int) list" where
  "chat_with_documents L cfg svc q history =
     (if \<not> bq_configured cfg
      then (Inl (HTTPException 500
                  (''BigQuery configuration not set. Please set BQ_PROJECT_ID, BQ_DATASET, '' @
                   ''and BQ_TABLE environment variables.'')), 0, [])
      else case chat_with_documents_try L cfg svc q history of
        (Inl e, n, searches) \<Rightarrow>
          (Inl (HTTPException 500 (''Error in case file analysis: '' @ str_exn e)), n, searches)
      | (Inr response, n, searches) \<Rightarrow> (Inr response, n, searches))"

section \<open>Ingestion: \<open>app/crud/document.py\<close> and the helpers it calls\<close>



subsection \<open>\<open>store_file_in_ipfs\<close> (\<open>app/utils/ipfs.py\<close>)\<close>

record ipfs_details =
  ipfs_hash :: string
  ipfs_path :: string
  local_gateway_url :: string
  public_gateway_url :: string



subsection \<open>\<open>process_pdf\<close> and \<open>get_raw_text\<close> (\<open>app/utils/pdf_extraction.py\<close>)\<close>







subsection \<open>\<open>store_json_on_chain\<close> (\<open>app/utils/aptos.py\<close>)\<close>



subsection \<open>\<open>create_document\<close>\<close>









section \<open>Auxiliary notions for the statements\<close>

text \<open>
  What \<open>escape_query\<close> does to one character once the characters of \<open>D\<close> have been
  handled.
\<close>

definition esc_in :: "char set \<Rightarrow> char \<Rightarrow> string" where
  "esc_in D x = (if x \<in> D then [CHR 0x5C, x] else [x])"

text \<open>
  Reading an escaped string from the left: a backslash escapes the character after it,
  which must be a special character; any other character must not be special. A string
  passes when no special character occurs unescaped.
\<close>

fun no_unescaped_special :: "string \<Rightarrow> bool" where
  "no_unescaped_special [] = True"
| "no_unescaped_special [c] = (c \<notin> set special_chars)"
| "no_unescaped_special (c # d # ds) =
     (if c = CHR 0x5C then d \<in> set special_chars \<and> no_unescaped_special ds
      else c \<notin> set special_chars \<and> no_unescaped_special (d # ds))"

text \<open>
  The overlap that \<open>chunk_text\<close> carries over from a buffer it closes: the expression
  \<open>overlap_text\<close> of the source.
\<close>

definition overlap_text :: "storage \<Rightarrow> string \<Rightarrow> string" where
  "overlap_text S current_chunk =
     (if int (length current_chunk) > chunk_overlap S
      then slice_from (- chunk_overlap S) current_chunk
      else current_chunk)"

text \<open>The sentences of a group, each followed by a space.\<close>

definition spaced :: "string list \<Rightarrow> string" where
  "spaced g = concat (map (\<lambda>s. s @ '' '') g)"

text \<open>
  The chunks made of consecutive groups of sentences, numbered from \<open>n\<close>: the buffer
  of a chunk is its seed followed by the sentences of its group; the seed of the next
  chunk is the overlap of that buffer.
\<close>

fun grouped_chunks :: "storage \<Rightarrow> string \<Rightarrow> nat \<Rightarrow> string \<Rightarrow> string list list \<Rightarrow> chunk list" where
  "grouped_chunks S d n seed [] = []"
| "grouped_chunks S d n seed (g # gs) =
     make_chunk d n (seed @ spaced g)
       # grouped_chunks S d (Suc n) (overlap_text S (seed @ spaced g)) gs"

text \<open>The seed left after the groups \<open>gs\<close> have been closed.\<close>

fun seed_after :: "storage \<Rightarrow> string \<Rightarrow> string list list \<Rightarrow> string" where
  "seed_after S seed [] = seed"
| "seed_after S seed (g # gs) = seed_after S (overlap_text S (seed @ spaced g)) gs"

text \<open>
  A chunk fits when its text has at most \<open>chunk_size\<close> characters or its group is a
  single sentence.
\<close>

definition chunk_fits :: "storage \<Rightarrow> string list \<times> chunk \<Rightarrow> bool" where
  "chunk_fits S gc = (case gc of (g, c) \<Rightarrow> int (length (text' c)) \<le> chunk_size S \<or> length g = 1)"

text \<open>
  The state of the loop of \<open>chunk_text\<close> after the sentences \<open>ss\<close>: nothing yet, or
  the groups closed so far, whose chunks fit, and a last group in the buffer.
\<close>

definition chunk_inv ::
  "storage \<Rightarrow> string \<Rightarrow> string list \<Rightarrow> chunk list \<times> string \<times> nat \<Rightarrow> bool" where
  "chunk_inv S d ss st =
     (case st of (chunks, cur, n) \<Rightarrow>
        (ss = [] \<and> chunks = [] \<and> cur = [] \<and> n = 0) \<or>
        (\<exists>gs g. g \<noteq> [] \<and> concat gs @ g = ss \<and> [] \<notin> set gs \<and> n = length gs \<and>
           chunks = grouped_chunks S d 0 [] gs \<and> cur = seed_after S [] gs @ spaced g \<and>
           list_all (chunk_fits S) (zip gs chunks) \<and>
           (length g = 1 \<or> int (length cur) \<le> chunk_size S + 1)))"

text \<open>
  What the searches of the retrieval loop return, in the order of the queries: the
  first search is the one numbered \<open>i\<close>.
\<close>

fun raw_results :: "storage \<Rightarrow> int \<Rightarrow> nat \<Rightarrow> json list \<Rightarrow> text_chunk list list" where
  "raw_results S lim i [] = []"
| "raw_results S lim i (q # qs) = search_chunks S i q lim # raw_results S lim (Suc i) qs"

text \<open>
  The elements of a list of chunks at the positions where a \<open>chunk_id\<close> occurs for the
  first time, in the order of the list.
\<close>

definition first_occurrences :: "text_chunk list \<Rightarrow> text_chunk list" where
  "first_occurrences xs =
     map (nth xs) (filter (\<lambda>i. chunk_id (xs ! i) \<notin> chunk_id ` set (take i xs)) [0..<length xs])"

text \<open>The chunks of a list whose \<open>chunk_id\<close> is neither in \<open>seen\<close> nor earlier in the list.\<close>

fun unseen :: "string set \<Rightarrow> text_chunk list \<Rightarrow> text_chunk list" where
  "unseen seen [] = []"
| "unseen seen (c # cs) =
     (if chunk_id c \<in> seen then unseen seen cs else c # unseen (insert (chunk_id c) seen) cs)"

text \<open>The categories that the prompt of \<open>analyze_query_intent\<close> asks for.\<close>

definition intent_categories :: "json list" where
  "intent_categories = [JStr ''comparison'', JStr ''pattern'', JStr ''timeline'', JStr ''entity'',
     JStr ''relationship'', JStr ''general'']"

section \<open>Concrete inputs\<close>

text \<open>
  A store with one row, and a store whose inserts report a row error and whose queries
  raise. \<open>ex_loads\<close> agrees with \<open>json.loads\<close> on the four JSON texts it lists and on
  every text that is not JSON.
\<close>

definition ex_row :: text_chunk where
  "ex_row = \<lparr>chunk_id = ''D1_0'', doc_id = ''D1'', text' = ''The theft took place at night.'',
             filename = ''fir.pdf'', original_pdf_ipfs_path = ''QmHash''\<rparr>"

definition ex_client :: bq_client where
  "ex_client = \<lparr>insert_rows_json = (\<lambda>t rows. Inr []), query_job = (\<lambda>i sql q lim. Inr [ex_row])\<rparr>"

definition failing_client :: bq_client where
  "failing_client =
     \<lparr>insert_rows_json = (\<lambda>t rows. Inr [''{index: 0, errors: [no such field]}'']),
      query_job = (\<lambda>i sql q lim. Inl (Exception ''400 Syntax error''))\<rparr>"

definition ex_loads :: "string \<Rightarrow> exn + json" where
  \<open>ex_loads s =
     (if s = ''{"type": "banana"}'' then Inr (JDict [(''type'', JStr ''banana'')])
      else if s = ''{"type": "timeline", "search_terms": "theft night"}''
      then Inr (JDict [(''type'', JStr ''timeline''), (''search_terms'', JStr ''theft night'')])
      else if s = ''{"type": "comparison", "search_terms": "theft burglary"}''
      then Inr (JDict [(''type'', JStr ''comparison''), (''search_terms'', JStr ''theft burglary'')])
      else if s = ''["theft", "burglary"]'' then Inr (JList [JStr ''theft'', JStr ''burglary''])
      else Inl (JSONDecodeError ''Expecting value: line 1 column 1 (char 0)''))\<close>

definition ex_lib :: "(exn + bq_client) \<Rightarrow> string list \<Rightarrow> lib" where
  "ex_lib client sentences =
     \<lparr>sent_tokenize = (\<lambda>t. Inr sentences),
      json_dumps = (\<lambda>j. Inr ''{}''),
      json_loads = ex_loads,
      uuid4 = ''D1'',
      path_exists = (\<lambda>p. False),
      client_from_service_account_json = (\<lambda>p. client),
      client_for_project = (\<lambda>p. client),
      getenv_GCS_BUCKET_NAME = ''''\<rparr>"

definition ex_config :: config where
  "ex_config = \<lparr>BQ_PROJECT_ID = ''p'', BQ_DATASET = ''d'', BQ_TABLE = ''t'',
                BQ_CREDENTIALS_PATH = ''credentials/key.json''\<rparr>"

definition ex_storage :: "bq_client \<Rightarrow> storage" where
  "ex_storage client = \<lparr>bq_client = client, bq_table = ''p.d.t'', chunk_size = 1000,
     chunk_overlap = 100, gcs_bucket_name = ''''\<rparr>"


text \<open>
  Two sentences of 950 characters each, as \<open>sent_tokenize\<close> returns them for the text
  made of the two, and the chunks that \<open>chunk_text\<close> makes of them.
\<close>

definition long_sentences :: "string list" where
  "long_sentences = [replicate 949 CHR ''a'' @ ''.'', replicate 949 CHR ''b'' @ ''.'']"

definition long_text :: string where
  "long_text = replicate 949 CHR ''a'' @ ''. '' @ replicate 949 CHR ''b'' @ ''.''"

definition long_chunks :: "chunk list" where
  "long_chunks =
     [\<lparr>chunk_id = ''D1_0'', doc_id = ''D1'', text' = replicate 949 CHR ''a'' @ ''.''\<rparr>,
      \<lparr>chunk_id = ''D1_1'', doc_id = ''D1'',
       text' = replicate 98 CHR ''a'' @ ''. '' @ replicate 949 CHR ''b'' @ ''.''\<rparr>]"


text \<open>
  Language model services: none; one that answers every prompt with plain words; one
  that answers the first prompt with a category outside the list; one that answers it
  with a category of the list; one that asks for a comparison and then gives two queries.
\<close>

definition no_llm :: llm_service where
  "no_llm = \<lparr>model = None\<rparr>"

definition prose_llm :: llm_service where
  "prose_llm = \<lparr>model = Some (\<lambda>n prompt. Inr ''theft night'')\<rparr>"

definition banana_llm :: llm_service where
  \<open>banana_llm =
     \<lparr>model = Some (\<lambda>n prompt. if n = 0 then Inr ''{"type": "banana"}'' else Inr ''theft night'')\<rparr>\<close>

definition timeline_llm :: llm_service where
  \<open>timeline_llm =
     \<lparr>model = Some (\<lambda>n prompt.
        if n = 0 then Inr ''{"type": "timeline", "search_terms": "theft night"}''
        else Inr ''theft night'')\<rparr>\<close>

definition comparison_llm :: llm_service where
  \<open>comparison_llm =
     \<lparr>model = Some (\<lambda>n prompt.
        if n = 0 then Inr ''{"type": "comparison", "search_terms": "theft burglary"}''
        else Inr ''["theft", "burglary"]'')\<rparr>\<close>

text \<open>A store that finds nothing.\<close>

definition empty_client :: bq_client where
  "empty_client = \<lparr>insert_rows_json = (\<lambda>t rows. Inr []), query_job = (\<lambda>i sql q lim. Inr [])\<rparr>"

definition ex_chunk :: chunk where
  "ex_chunk = \<lparr>chunk_id = ''D1_0'', doc_id = ''D1'', text' = ''The theft took place at night.''\<rparr>"

definition ex_bq_row :: bq_row where
  "ex_bq_row = \<lparr>chunk_id = ''D1_0'', doc_id = ''D1'', text' = ''The theft took place at night.'',
     filename = ''fir.pdf'', original_pdf_ipfs_path = ''QmHash'',
     gcs_path = ''gs://placeholder-bucket/D1/D1_0.txt'', pdf_metadata = ''{}''\<rparr>"
















text \<open>
  A language model that answers with a JSON object whose \<open>type\<close> is a number, and a
  library whose \<open>json.loads\<close> is right on that text and on every text that is not
  JSON.
\<close>

definition number_llm :: llm_service where
  \<open>number_llm = \<lparr>model = Some (\<lambda>n prompt. Inr ''{"type": 42}'')\<rparr>\<close>

definition number_loads :: "string \<Rightarrow> exn + json" where
  \<open>number_loads s =
     (if s = ''{"type": 42}'' then Inr (JDict [(''type'', JInt 42)])
      else Inl (JSONDecodeError ''Expecting value: line 1 column 1 (char 0)''))\<close>

definition number_lib :: lib where
  "number_lib = (ex_lib (Inr ex_client) [])\<lparr>json_loads := number_loads\<rparr>"

section \<open>Facts about the concrete inputs\<close>

lemma ex_new_storage: "new_storage (ex_lib (Inr client) ss) ex_config = Inr (ex_storage client)"
  by (simp add: new_storage_def BigQueryPDFChunkStorage_def ex_lib_def ex_config_def ex_storage_def)

lemma ex_configured: "bq_configured ex_config"
  by (simp add: bq_configured_def ex_config_def)

lemma strip_theft: "strip ''theft night'' = ''theft night''"
  by (simp add: strip_def py_isspace_def)

lemma strip_json_texts:
  \<open>strip ''{"type": "banana"}'' = ''{"type": "banana"}''\<close>
  \<open>strip ''{"type": "timeline", "search_terms": "theft night"}''
     = ''{"type": "timeline", "search_terms": "theft night"}''\<close>
  \<open>strip ''{"type": "comparison", "search_terms": "theft burglary"}''
     = ''{"type": "comparison", "search_terms": "theft burglary"}''\<close>
  \<open>strip ''["theft", "burglary"]'' = ''["theft", "burglary"]''\<close>
  by (simp_all add: strip_def py_isspace_def)

lemma prose_available: "is_available prose_llm"
  by (simp add: is_available_def prose_llm_def)

lemma prose_generate: "generate_content prose_llm n p = Inr ''theft night''"
  by (simp add: generate_content_def prose_llm_def)

lemma prose_intent:
  "analyze_query_intent (ex_lib c ss) prose_llm n q = (general_intent q, n + 1)"
  by (simp add: analyze_query_intent_def analyze_query_intent_try_def prose_available
      prose_generate strip_theft ex_lib_def ex_loads_def)

lemma prose_search_plan:
  "search_plan (ex_lib c ss) prose_llm q = (Inr (Some [JStr ''theft night'']), 3)"
  by (simp add: search_plan_def prose_intent enhance_search_query_def is_multi_query_intent_def
      general_intent_def prose_available prose_generate strip_theft)

lemma comparison_search_plan:
  "search_plan (ex_lib c ss) comparison_llm q = (Inr (Some [JStr ''theft'', JStr ''burglary'']), 2)"
  by (simp add: search_plan_def analyze_query_intent_def analyze_query_intent_try_def
      generate_multi_query_def is_multi_query_intent_def is_available_def generate_content_def
      comparison_llm_def strip_json_texts ex_lib_def ex_loads_def)

lemma ex_make_rows:
  "make_rows (ex_lib c ss) ''placeholder-bucket'' [ex_chunk] (JDict []) ''fir.pdf'' ''QmHash'' []
   = Inr [ex_bq_row]"
  by (simp add: ex_lib_def ex_chunk_def ex_bq_row_def)

lemma ex_make_rows':
  "make_rows (ex_lib c ss)
     (if gcs_bucket_name (ex_storage cl) \<noteq> [] then gcs_bucket_name (ex_storage cl) else ''placeholder-bucket'')
     [ex_chunk] (JDict []) ''fir.pdf'' ''QmHash'' [] = Inr [ex_bq_row]"
  using ex_make_rows by (simp add: ex_storage_def)

lemma banana_intent:
  "analyze_query_intent (ex_lib c ss) banana_llm 0 q = (JDict [(''type'', JStr ''banana'')], 1)"
  by (simp add: analyze_query_intent_def analyze_query_intent_try_def is_available_def
      generate_content_def banana_llm_def strip_json_texts ex_lib_def ex_loads_def)

lemma timeline_generate:
  \<open>generate_content timeline_llm 0 p = Inr ''{"type": "timeline", "search_terms": "theft night"}''\<close>
  by (simp add: generate_content_def timeline_llm_def)

lemma timeline_loads:
  \<open>json_loads (ex_lib c ss) (strip ''{"type": "timeline", "search_terms": "theft night"}'')
   = Inr (JDict [(''type'', JStr ''timeline''), (''search_terms'', JStr ''theft night'')])\<close>
  by (simp add: strip_json_texts ex_lib_def ex_loads_def)

lemma timeline_obeys:
  "\<forall>reply v t. generate_content timeline_llm 0 (intent_prompt ''when was the theft?'') = Inr reply \<longrightarrow>
     json_loads (ex_lib (Inr ex_client) []) (strip reply) = Inr v \<longrightarrow>
     getitem v ''type'' = Inr t \<longrightarrow> t \<in> set intent_categories"
  by (auto simp: timeline_generate timeline_loads intent_categories_def)

lemma prose_chat_plan:
  "chat_plan (ex_lib c ss) prose_llm q = (Inr [JStr ''theft night''], 3)"
  by (simp add: chat_plan_def prose_intent enhance_search_query_def is_multi_query_intent_def
      general_intent_def prose_available prose_generate strip_theft)

lemma empty_search:
  "fst (search_all (ex_storage empty_client) 3 [JStr ''theft night''] ([], {}, [])) = []"
  by (simp add: search_chunks_def ex_storage_def empty_client_def)










lemma no_llm_unavailable: "\<not> is_available no_llm"
  by (simp add: is_available_def no_llm_def)

lemma number_available: "is_available number_llm"
  by (simp add: is_available_def number_llm_def)

lemma number_generate: \<open>generate_content number_llm n p = Inr ''{"type": 42}''\<close>
  by (simp add: generate_content_def number_llm_def)

lemma number_parsed:
  \<open>json_loads number_lib (strip ''{"type": 42}'') = Inr (JDict [(''type'', JInt 42)])\<close>
  by (simp add: number_lib_def number_loads_def strip_def py_isspace_def)

lemma number_type: "getitem (JDict [(''type'', JInt 42)]) ''type'' = Inr (JInt 42)"
  by simp

section \<open>Query escaping\<close>

lemma str_replace_char_concat:
  "str_replace_char c r (concat xss) = concat (map (str_replace_char c r) xss)"
  by (induction xss) (simp_all add: str_replace_char_def)

lemma replace_esc_in:
  assumes "c \<notin> D" and "c = CHR 0x5C \<longrightarrow> D = {}"
  shows "str_replace_char c [CHR 0x5C, c] (esc_in D x) = esc_in (insert c D) x"
  using assms by (auto simp: str_replace_char_def esc_in_def)

lemma replace_step:
  assumes "c \<notin> D" and "c = CHR 0x5C \<longrightarrow> D = {}"
  shows "str_replace_char c [CHR 0x5C, c] (concat (map (esc_in D) q))
         = concat (map (esc_in (insert c D)) q)"
  by (simp add: str_replace_char_concat o_def replace_esc_in[OF assms])

lemma replace_all:
  "distinct cs \<Longrightarrow> set cs \<inter> D = {} \<Longrightarrow>
   (CHR 0x5C \<in> set cs \<longrightarrow> D = {} \<and> hd cs = CHR 0x5C) \<Longrightarrow>
   foldl (\<lambda>acc c. str_replace_char c [CHR 0x5C, c] acc) (concat (map (esc_in D) q)) cs
   = concat (map (esc_in (D \<union> set cs)) q)"
proof (induction cs arbitrary: D)
  case Nil
  then show ?case by simp
next
  case (Cons c cs)
  have c: "c \<notin> D" "c = CHR 0x5C \<longrightarrow> D = {}"
    using Cons.prems by auto
  have bs: "CHR 0x5C \<notin> set cs"
    using Cons.prems by (cases "c = CHR 0x5C") auto
  have "foldl (\<lambda>acc c. str_replace_char c [CHR 0x5C, c] acc) (concat (map (esc_in D) q)) (c # cs)
        = foldl (\<lambda>acc c. str_replace_char c [CHR 0x5C, c] acc)
            (concat (map (esc_in (insert c D)) q)) cs"
    by (simp add: replace_step[OF c])
  also have "\<dots> = concat (map (esc_in (insert c D \<union> set cs)) q)"
    using Cons.prems bs by (intro Cons.IH) auto
  finally show ?case by simp
qed

lemma esc_in_empty: "concat (map (esc_in {}) q) = q"
  by (induction q) (simp_all add: esc_in_def)

text \<open>
  The sequence of replacements amounts to one pass that puts a backslash before every
  special character: the backslash is handled first, so the backslashes added later are
  never doubled.
\<close>

lemma escape_query_charwise:
  "escape_query q = concat (map (esc_in (set special_chars)) q)"
proof -
  have "distinct special_chars"
    by (simp add: special_chars_def)
  moreover have "hd special_chars = CHR 0x5C"
    by (simp add: special_chars_def)
  ultimately have
    "foldl (\<lambda>acc c. str_replace_char c [CHR 0x5C, c] acc) (concat (map (esc_in {}) q)) special_chars
     = concat (map (esc_in ({} \<union> set special_chars)) q)"
    by (intro replace_all) auto
  then show ?thesis
    by (simp add: escape_query_def esc_in_empty)
qed

lemma no_unescaped_plain:
  "c \<notin> set special_chars \<Longrightarrow> no_unescaped_special (c # r) = no_unescaped_special r"
  by (cases r) (auto simp: special_chars_def)

text \<open>
  C9. For every query string, the escaped string that \<open>search_chunks\<close> hands to the store
  has no unescaped special character: read from the left, every special character that
  is not itself an escaping backslash comes right after one.
\<close>

theorem escape_query_no_unescaped_special:
  "no_unescaped_special (escape_query q)"
  unfolding escape_query_charwise
proof (induction q)
  case Nil
  show ?case by simp
next
  case (Cons x xs)
  show ?case
  proof (cases "x \<in> set special_chars")
    case True
    then show ?thesis using Cons.IH by (simp add: esc_in_def)
  next
    case False
    then show ?thesis using Cons.IH by (simp add: esc_in_def no_unescaped_plain)
  qed
qed

theorem escape_query_no_unescaped_special_witness:
  "escape_query ''what about (theft)?''
     = ''what about '' @ [CHR 0x5C] @ ''(theft'' @ [CHR 0x5C] @ '')'' @ [CHR 0x5C] @ ''?'' \<and>
   no_unescaped_special (escape_query ''what about (theft)?'')"
proof -
  have e: "escape_query ''what about (theft)?''
     = ''what about '' @ [CHR 0x5C] @ ''(theft'' @ [CHR 0x5C] @ '')'' @ [CHR 0x5C] @ ''?''"
    by (simp add: escape_query_def special_chars_def str_replace_char_def)
  show ?thesis
    by (rule conjI[OF e escape_query_no_unescaped_special])
qed

section \<open>The chunks of a text\<close>

lemma length_strip_le: "length (strip s) \<le> length s"
proof -
  have "length (dropWhile py_isspace (rev (dropWhile py_isspace s))) \<le> length (rev (dropWhile py_isspace s))"
    by (rule length_dropWhile_le)
  also have "\<dots> \<le> length s" by (simp add: length_dropWhile_le)
  finally show ?thesis by (simp add: strip_def)
qed

lemma space_isspace: "py_isspace CHR '' ''"
  by (simp add: py_isspace_def)

lemma length_strip_buffer: "length (strip (b @ '' '')) \<le> length b"
proof (cases "\<forall>x\<in>set b. py_isspace x")
  case True
  then have "dropWhile py_isspace (b @ '' '') = []"
    by (simp add: space_isspace)
  then show ?thesis by (simp add: strip_def)
next
  case False
  then have "dropWhile py_isspace (b @ '' '') = dropWhile py_isspace b @ '' ''"
    by (simp add: dropWhile_append)
  then have "strip (b @ '' '') = rev (dropWhile py_isspace (rev (dropWhile py_isspace b)))"
    by (simp add: strip_def space_isspace)
  moreover have "length (dropWhile py_isspace (rev (dropWhile py_isspace b)))
      \<le> length (rev (dropWhile py_isspace b))"
    by (rule length_dropWhile_le)
  ultimately have "length (strip (b @ '' '')) \<le> length (dropWhile py_isspace b)"
    by simp
  also have "\<dots> \<le> length b" by (rule length_dropWhile_le)
  finally show ?thesis .
qed

lemma grouped_chunks_snoc:
  "grouped_chunks S d n seed (gs @ [g])
   = grouped_chunks S d n seed gs @ [make_chunk d (n + length gs) (seed_after S seed gs @ spaced g)]"
  by (induction gs arbitrary: n seed) simp_all

lemma seed_after_snoc:
  "seed_after S seed (gs @ [g]) = overlap_text S (seed_after S seed gs @ spaced g)"
  by (induction gs arbitrary: seed) simp_all

lemma length_grouped_chunks: "length (grouped_chunks S d n seed gs) = length gs"
  by (induction gs arbitrary: n seed) simp_all

lemma spaced_snoc: "spaced (g @ [s]) = spaced g @ s @ '' ''"
  by (simp add: spaced_def)

lemma spaced_ends_with_space:
  assumes "g \<noteq> []"
  shows "\<exists>body. spaced g = body @ '' ''"
proof -
  have "g = butlast g @ [last g]" using assms by simp
  then have "spaced g = (spaced (butlast g) @ last g) @ '' ''"
    using spaced_snoc[of "butlast g" "last g"] by simp
  then show ?thesis by blast
qed

lemma closed_chunk_fits:
  assumes "g \<noteq> []" and "length g = 1 \<or> int (length (seed @ spaced g)) \<le> chunk_size S + 1"
  shows "chunk_fits S (g, make_chunk d n (seed @ spaced g))"
proof -
  obtain body where b: "spaced g = body @ '' ''"
    using spaced_ends_with_space[OF assms(1)] by blast
  have "length (strip ((seed @ body) @ '' '')) \<le> length (seed @ body)"
    by (rule length_strip_buffer)
  then have "int (length (strip (seed @ spaced g))) + 1 \<le> int (length (seed @ spaced g))"
    by (simp add: b)
  then show ?thesis
    using assms(2) by (auto simp: chunk_fits_def make_chunk_def)
qed

lemma chunk_inv_run:
  assumes "g \<noteq> []" "concat gs @ g = ss" "[] \<notin> set gs" "n = length gs"
    "chunks = grouped_chunks S d 0 [] gs" "cur = seed_after S [] gs @ spaced g"
    "list_all (chunk_fits S) (zip gs chunks)"
    "length g = 1 \<or> int (length cur) \<le> chunk_size S + 1"
  shows "chunk_inv S d ss (chunks, cur, n)"
  unfolding chunk_inv_def using assms by blast

lemma chunk_inv_step:
  assumes "chunk_inv S d ss st"
  shows "chunk_inv S d (ss @ [s]) (chunk_sentence S d st s)"
proof -
  obtain chunks cur n where st: "st = (chunks, cur, n)"
    by (cases st) auto
  from assms st consider
    (start) "ss = []" "chunks = []" "cur = []" "n = 0"
  | (run) gs g where "g \<noteq> []" "concat gs @ g = ss" "[] \<notin> set gs" "n = length gs"
      "chunks = grouped_chunks S d 0 [] gs" "cur = seed_after S [] gs @ spaced g"
      "list_all (chunk_fits S) (zip gs chunks)"
      "length g = 1 \<or> int (length cur) \<le> chunk_size S + 1"
    by (auto simp: chunk_inv_def)
  then show ?thesis
  proof cases
    case start
    have "chunk_sentence S d st s = ([], s @ '' '', 0)"
      using st start by simp
    moreover have "chunk_inv S d ([] @ [s]) ([], s @ '' '', 0)"
      by (rule chunk_inv_run[of "[s]" "[]"]) (simp_all add: spaced_def)
    ultimately show ?thesis using start by simp
  next
    case run
    have ne: "cur \<noteq> []"
      using spaced_ends_with_space[OF run(1)] run(6) by auto
    show ?thesis
    proof (cases "int (length cur) + int (length s) \<le> chunk_size S")
      case True
      have e: "chunk_sentence S d st s = (chunks, cur @ s @ '' '', n)"
        using st True by simp
      have "chunk_inv S d (ss @ [s]) (chunks, cur @ s @ '' '', n)"
        by (rule chunk_inv_run[of "g @ [s]" gs]) (use run True in \<open>simp_all add: spaced_snoc\<close>)
      then show ?thesis using e by simp
    next
      case False
      have e: "chunk_sentence S d st s
               = (chunks @ [make_chunk d n cur], overlap_text S cur @ s @ '' '', n + 1)"
        using st False ne by (simp add: overlap_text_def)
      have c: "chunks @ [make_chunk d n cur] = grouped_chunks S d 0 [] (gs @ [g])"
        using run by (simp add: grouped_chunks_snoc)
      have sd: "overlap_text S cur = seed_after S [] (gs @ [g])"
        using run by (simp add: seed_after_snoc)
      have f: "chunk_fits S (g, make_chunk d n cur)"
        unfolding run(6) by (rule closed_chunk_fits[OF run(1)]) (use run in simp)
      have l: "length gs = length chunks"
        using run by (simp add: length_grouped_chunks)
      have fits: "list_all (chunk_fits S) (zip (gs @ [g]) (chunks @ [make_chunk d n cur]))"
        using run(7) f l by simp
      have "chunk_inv S d (ss @ [s])
              (chunks @ [make_chunk d n cur], overlap_text S cur @ s @ '' '', n + 1)"
        by (rule chunk_inv_run[of "[s]" "gs @ [g]"])
          (use run c sd fits in \<open>simp_all add: spaced_def\<close>)
      then show ?thesis using e by simp
    qed
  qed
qed

lemma chunk_inv_loop:
  "chunk_inv S d ss st \<Longrightarrow> chunk_inv S d (ss @ ts) (foldl (chunk_sentence S d) st ts)"
proof (induction ts arbitrary: ss st)
  case Nil
  then show ?case by simp
next
  case (Cons t ts)
  have "chunk_inv S d ((ss @ [t]) @ ts) (foldl (chunk_sentence S d) (chunk_sentence S d st t) ts)"
    by (rule Cons.IH[OF chunk_inv_step[OF Cons.prems]])
  then show ?case by simp
qed

lemma chunk_sentences_grouped:
  "\<exists>groups. concat groups = sentences \<and> [] \<notin> set groups \<and>
     chunk_sentences S sentences d = grouped_chunks S d 0 [] groups \<and>
     list_all (chunk_fits S) (zip groups (chunk_sentences S sentences d))"
proof -
  obtain chunks cur n where f: "foldl (chunk_sentence S d) ([], [], 0) sentences = (chunks, cur, n)"
    by (cases "foldl (chunk_sentence S d) ([], [], 0) sentences") auto
  have "chunk_inv S d [] ([], [], 0)"
    by (simp add: chunk_inv_def)
  then have "chunk_inv S d ([] @ sentences) (foldl (chunk_sentence S d) ([], [], 0) sentences)"
    by (rule chunk_inv_loop)
  then have inv: "chunk_inv S d sentences (chunks, cur, n)"
    using f by simp
  then consider
    (start) "sentences = []" "chunks = []" "cur = []" "n = 0"
  | (run) gs g where "g \<noteq> []" "concat gs @ g = sentences" "[] \<notin> set gs" "n = length gs"
      "chunks = grouped_chunks S d 0 [] gs" "cur = seed_after S [] gs @ spaced g"
      "list_all (chunk_fits S) (zip gs chunks)"
      "length g = 1 \<or> int (length cur) \<le> chunk_size S + 1"
    by (auto simp: chunk_inv_def)
  then show ?thesis
  proof cases
    case start
    have "chunk_sentences S sentences d = []"
      using f start by (simp add: chunk_sentences_def)
    then show ?thesis
      using start by (intro exI[of _ "[]"]) simp
  next
    case run
    have ne: "cur \<noteq> []"
      using spaced_ends_with_space[OF run(1)] run(6) by auto
    have r: "chunk_sentences S sentences d = chunks @ [make_chunk d n cur]"
      using f ne by (simp add: chunk_sentences_def)
    have c: "chunks @ [make_chunk d n cur] = grouped_chunks S d 0 [] (gs @ [g])"
      using run by (simp add: grouped_chunks_snoc)
    have fc: "chunk_fits S (g, make_chunk d n cur)"
      unfolding run(6) by (rule closed_chunk_fits[OF run(1)]) (use run in simp)
    have l: "length gs = length chunks"
      using run by (simp add: length_grouped_chunks)
    have fits: "list_all (chunk_fits S) (zip (gs @ [g]) (chunks @ [make_chunk d n cur]))"
      using run(7) fc l by simp
    show ?thesis
      using run r c fits by (intro exI[of _ "gs @ [g]"]) simp
  qed
qed

lemma overlap_text_suffix:
  "\<exists>p. b = p @ overlap_text S b"
proof (cases "int (length b) > chunk_overlap S")
  case True
  then have "overlap_text S b = slice_from (- chunk_overlap S) b"
    by (simp add: overlap_text_def)
  then have "\<exists>k. overlap_text S b = drop k b"
    by (auto simp: slice_from_def)
  then obtain k where "overlap_text S b = drop k b" by blast
  then have "b = take k b @ overlap_text S b" by simp
  then show ?thesis by blast
next
  case False
  then have "b = [] @ overlap_text S b" by (simp add: overlap_text_def)
  then show ?thesis by blast
qed

lemma overlap_text_length:
  "0 < chunk_overlap S \<Longrightarrow> int (length (overlap_text S b)) \<le> chunk_overlap S"
  by (auto simp: overlap_text_def slice_from_def)

text \<open>
  C1, as amended. With a positive overlap, \<open>chunk_text\<close> divides the sentences, in
  their order, into consecutive groups, none empty, one for each chunk. The text of a
  chunk is the stripped buffer made of a seed and the whole sentences of its group,
  each followed by a space: no sentence is split. The first seed is empty, and every
  later seed is the overlap carried over from the buffer of the chunk closed before
  it, an end piece of that buffer of at most \<open>chunk_overlap\<close> characters. The text of a
  chunk has at most \<open>chunk_size\<close> characters unless its group is a single sentence.
\<close>

theorem chunk_text_length:
  assumes "0 < chunk_overlap S" and "chunk_text L S text d = Inr chunks"
  shows "(\<exists>sentences groups. sent_tokenize L text = Inr sentences \<and>
            concat groups = sentences \<and> [] \<notin> set groups \<and>
            chunks = grouped_chunks S d 0 [] groups \<and>
            list_all (chunk_fits S) (zip groups chunks)) \<and>
         (\<forall>b. int (length (overlap_text S b)) \<le> chunk_overlap S \<and>
              (\<exists>p. b = p @ overlap_text S b))"
proof -
  from assms(2) obtain sentences where t: "sent_tokenize L text = Inr sentences"
    and ch: "chunks = chunk_sentences S sentences d"
    by (auto simp: chunk_text_def split: sum.splits)
  obtain groups where "concat groups = sentences" "[] \<notin> set groups"
     "chunk_sentences S sentences d = grouped_chunks S d 0 [] groups"
     "list_all (chunk_fits S) (zip groups (chunk_sentences S sentences d))"
    using chunk_sentences_grouped by blast
  then have "\<exists>sentences groups. sent_tokenize L text = Inr sentences \<and>
            concat groups = sentences \<and> [] \<notin> set groups \<and>
            chunks = grouped_chunks S d 0 [] groups \<and>
            list_all (chunk_fits S) (zip groups chunks)"
    using t ch by blast
  then show ?thesis
    using overlap_text_length[OF assms(1)] overlap_text_suffix by blast
qed


lemma long_chunk_sentences:
  "chunk_sentences (ex_storage ex_client) long_sentences ''D1'' = long_chunks"
  by code_simp

lemma long_chunk_text:
  "chunk_text (ex_lib (Inr ex_client) long_sentences) (ex_storage ex_client) long_text ''D1''
   = Inr long_chunks"
  by (simp add: chunk_text_def ex_lib_def long_chunk_sentences)

lemma long_groups:
  "grouped_chunks (ex_storage ex_client) ''D1'' 0 []
     [[replicate 949 CHR ''a'' @ ''.''], [replicate 949 CHR ''b'' @ ''.'']] = long_chunks"
  by code_simp

theorem chunk_text_length_witness:
  "0 < chunk_overlap (ex_storage ex_client) \<and>
   chunk_text (ex_lib (Inr ex_client) long_sentences) (ex_storage ex_client) long_text ''D1''
     = Inr long_chunks \<and>
   long_chunks = grouped_chunks (ex_storage ex_client) ''D1'' 0 []
     [[replicate 949 CHR ''a'' @ ''.''], [replicate 949 CHR ''b'' @ ''.'']] \<and>
   (\<exists>sentences groups.
      sent_tokenize (ex_lib (Inr ex_client) long_sentences) long_text = Inr sentences \<and>
      concat groups = sentences \<and> [] \<notin> set groups \<and>
      long_chunks = grouped_chunks (ex_storage ex_client) ''D1'' 0 [] groups \<and>
      list_all (chunk_fits (ex_storage ex_client)) (zip groups long_chunks))"
proof -
  have h1: "0 < chunk_overlap (ex_storage ex_client)"
    by (simp add: ex_storage_def)
  show ?thesis
    by (intro conjI)
       (rule h1 long_chunk_text long_groups[symmetric]
          chunk_text_length[OF h1 long_chunk_text, THEN conjunct1])+
qed

text \<open>
  The claim as it is written fails for the storage that the constructor builds (chunk
  size 1000, overlap 100): of two sentences of 950 characters, neither longer than the
  chunk size, the second comes out in a chunk of 1050 characters.
\<close>

theorem chunk_text_length_counterexample:
  "new_storage (ex_lib (Inr ex_client) long_sentences) ex_config = Inr (ex_storage ex_client) \<and>
   chunk_size (ex_storage ex_client) = 1000 \<and>
   sent_tokenize (ex_lib (Inr ex_client) long_sentences) long_text = Inr long_sentences \<and>
   map length long_sentences = [950, 950] \<and>
   chunk_text (ex_lib (Inr ex_client) long_sentences) (ex_storage ex_client) long_text ''D1''
     = Inr long_chunks \<and>
   map (length \<circ> text') long_chunks = [950, 1050]"
  by (simp add: ex_new_storage long_chunk_text)
     (simp add: ex_storage_def ex_lib_def long_sentences_def long_chunks_def)

section \<open>Deduplication in the retrieval loop\<close>

lemma dedup_chunks_unseen:
  "dedup_chunks cs (a, seen) = (a @ unseen seen cs, seen \<union> chunk_id ` set cs)"
  by (induction cs arbitrary: a seen) auto

lemma unseen_append:
  "unseen seen (xs @ ys) = unseen seen xs @ unseen (seen \<union> chunk_id ` set xs) ys"
proof (induction xs arbitrary: seen)
  case Nil
  show ?case by simp
next
  case (Cons c cs)
  show ?case
  proof (cases "chunk_id c \<in> seen")
    case True
    then have "insert (chunk_id c) (seen \<union> chunk_id ` set cs) = seen \<union> chunk_id ` set cs"
      by auto
    then show ?thesis using True Cons.IH[of seen] by simp
  next
    case False
    then show ?thesis using Cons.IH[of "insert (chunk_id c) seen"] by simp
  qed
qed

lemma search_all_unseen:
  "search_all S lim qs (a, seen, searches) =
     (a @ unseen seen (concat (raw_results S lim (length searches) qs)),
      seen \<union> chunk_id ` set (concat (raw_results S lim (length searches) qs)),
      searches @ map (\<lambda>q. (q, lim)) qs)"
proof (induction qs arbitrary: a seen searches)
  case Nil
  show ?case by simp
next
  case (Cons q qs)
  show ?case
    by (simp add: dedup_chunks_unseen Cons.IH unseen_append Un_assoc image_Un)
qed

lemma unseen_positions:
  "unseen seen xs =
     map (nth xs) (filter (\<lambda>i. chunk_id (xs ! i) \<notin> seen \<union> chunk_id ` set (take i xs)) [0..<length xs])"
proof (induction xs arbitrary: seen)
  case Nil
  show ?case by simp
next
  case (Cons c cs)
  have idx: "[0..<length (c # cs)] = 0 # map Suc [0..<length cs]"
    by (simp add: upt_conv_Cons map_Suc_upt del: upt_Suc)
  have tl: "map (nth (c # cs)) (filter (\<lambda>i. chunk_id ((c # cs) ! i) \<notin> seen \<union> chunk_id ` set (take i (c # cs)))
              (map Suc [0..<length cs]))
          = map (nth cs) (filter (\<lambda>i. chunk_id (cs ! i) \<notin> insert (chunk_id c) seen \<union> chunk_id ` set (take i cs))
              [0..<length cs])"
    by (simp add: filter_map o_def conj_commute conj_left_commute)
  show ?case
  proof (cases "chunk_id c \<in> seen")
    case True
    then have "insert (chunk_id c) seen = seen" by auto
    then show ?thesis
      unfolding idx using True tl Cons.IH[of seen] by simp
  next
    case False
    then show ?thesis
      unfolding idx using tl Cons.IH[of "insert (chunk_id c) seen"] by simp
  qed
qed

lemma unseen_first_occurrences: "unseen {} xs = first_occurrences xs"
  by (simp add: unseen_positions first_occurrences_def)

lemma unseen_ids: "chunk_id ` set (unseen seen xs) = chunk_id ` set xs - seen"
  by (induction xs arbitrary: seen) auto

lemma unseen_distinct: "distinct (map chunk_id (unseen seen xs))"
proof (induction xs arbitrary: seen)
  case Nil
  show ?case by simp
next
  case (Cons c cs)
  show ?case using Cons.IH unseen_ids[of "insert (chunk_id c) seen" cs] by auto
qed

text \<open>The searches that the loop makes: one for each query, all with the same limit.\<close>

lemma search_all_searches:
  "snd (snd (search_all S lim qs (a, seen, searches))) = searches @ map (\<lambda>q. (q, lim)) qs"
  by (simp add: search_all_unseen)

text \<open>
  C7. The chunks that the retrieval loop accumulates from the searches of an ordered
  sequence of queries are the chunks of the raw results, taken in the order of the
  queries and, within a query, in the order of its result, at the positions where a
  \<open>chunk_id\<close> occurs for the first time: a \<open>chunk_id\<close> that several results share is
  kept once, where it came first.
\<close>

theorem search_all_first_seen_wins:
  "fst (search_all S lim qs ([], {}, [])) = first_occurrences (concat (raw_results S lim 0 qs)) \<and>
   distinct (map chunk_id (fst (search_all S lim qs ([], {}, [])))) \<and>
   chunk_id ` set (fst (search_all S lim qs ([], {}, [])))
     = chunk_id ` set (concat (raw_results S lim 0 qs))"
proof -
  have "fst (search_all S lim qs ([], {}, [])) = unseen {} (concat (raw_results S lim 0 qs))"
    by (simp add: search_all_unseen)
  then show ?thesis
    using unseen_distinct[of "{}"] unseen_ids[of "{}"]
    by (simp add: unseen_first_occurrences)
qed

theorem search_all_first_seen_wins_witness:
  "raw_results (ex_storage ex_client) 3 0 [JStr ''theft'', JStr ''burglary'', JStr ''robbery'']
     = [[ex_row], [ex_row], [ex_row]] \<and>
   fst (search_all (ex_storage ex_client) 3 [JStr ''theft'', JStr ''burglary'', JStr ''robbery'']
          ([], {}, [])) = [ex_row]"
proof -
  have r: "raw_results (ex_storage ex_client) 3 0 [JStr ''theft'', JStr ''burglary'', JStr ''robbery'']
     = [[ex_row], [ex_row], [ex_row]]"
    by (simp add: search_chunks_def ex_storage_def ex_client_def)
  have f: "first_occurrences [ex_row, ex_row, ex_row] = [ex_row]"
    by (simp add: first_occurrences_def upt_rec)
  have "fst (search_all (ex_storage ex_client) 3
               [JStr ''theft'', JStr ''burglary'', JStr ''robbery''] ([], {}, []))
        = first_occurrences (concat (raw_results (ex_storage ex_client) 3 0
               [JStr ''theft'', JStr ''burglary'', JStr ''robbery'']))"
    by (rule search_all_first_seen_wins[THEN conjunct1])
  also have "\<dots> = [ex_row]"
    unfolding r using f by simp
  finally show ?thesis
    using r by (intro conjI)
qed

section \<open>Search failures\<close>

text \<open>
  C8. For every query string and limit, when running the search raises, \<open>search_chunks\<close>
  returns the empty list.
\<close>

theorem search_chunks_error_gives_empty:
  assumes "query_job (bq_client S) i (query_str S) (escape_query s) lim = Inl e"
  shows "search_chunks S i (JStr s) lim = []"
  using assms by (simp add: search_chunks_def)

theorem search_chunks_error_gives_empty_witness:
  "query_job (bq_client (ex_storage failing_client)) 0 (query_str (ex_storage failing_client))
     (escape_query ''what about (theft)?'') 10 = Inl (Exception ''400 Syntax error'') \<and>
   search_chunks (ex_storage failing_client) 0 (JStr ''what about (theft)?'') 10 = []"
proof -
  have h: "query_job (bq_client (ex_storage failing_client)) 0 (query_str (ex_storage failing_client))
     (escape_query ''what about (theft)?'') 10 = Inl (Exception ''400 Syntax error'')"
    by (simp add: ex_storage_def failing_client_def)
  show ?thesis using h search_chunks_error_gives_empty[OF h] by simp
qed

section \<open>The fallback of the intent classifier\<close>

text \<open>
  C6, as amended. For every query \<open>q\<close>: when the model is not available, when the call
  to it raises, when \<open>json.loads\<close> raises on its answer, or when the parsed answer has
  no entry \<open>type\<close>, \<open>analyze_query_intent\<close> returns exactly
  \<open>{"type": "general", "search_terms": q}\<close>; whatever the body of its \<open>try\<close> raises,
  it returns that value and raises nothing; and a parsed answer that has an entry
  \<open>type\<close> is returned as it is, also when it is not of the structure asked for.
\<close>

theorem analyze_query_intent_fallback:
  "(\<not> is_available svc
     \<or> (\<exists>e. generate_content svc n (intent_prompt q) = Inl e)
     \<or> (\<exists>reply e. generate_content svc n (intent_prompt q) = Inr reply \<and>
           json_loads L (strip reply) = Inl e)
     \<or> (\<exists>reply v e. generate_content svc n (intent_prompt q) = Inr reply \<and>
           json_loads L (strip reply) = Inr v \<and> getitem v ''type'' = Inl e)
     \<longrightarrow> fst (analyze_query_intent L svc n q) = general_intent q) \<and>
   (\<forall>e. is_available svc \<longrightarrow> analyze_query_intent_try L svc n q = Inl e \<longrightarrow>
      fst (analyze_query_intent L svc n q) = general_intent q) \<and>
   (\<forall>reply v t. is_available svc \<longrightarrow> generate_content svc n (intent_prompt q) = Inr reply \<longrightarrow>
      json_loads L (strip reply) = Inr v \<longrightarrow> getitem v ''type'' = Inr t \<longrightarrow>
      fst (analyze_query_intent L svc n q) = v)"
  by (auto simp: analyze_query_intent_def analyze_query_intent_try_def split: sum.splits exn.splits)

theorem analyze_query_intent_fallback_witness:
  \<open>\<not> is_available no_llm \<and>
   fst (analyze_query_intent (ex_lib (Inr ex_client) []) no_llm 0 ''who stole the car?'')
     = general_intent ''who stole the car?'' \<and>
   generate_content prose_llm 0 (intent_prompt ''who stole the car?'') = Inr ''theft night'' \<and>
   json_loads (ex_lib (Inr ex_client) []) (strip ''theft night'')
     = Inl (JSONDecodeError ''Expecting value: line 1 column 1 (char 0)'') \<and>
   fst (analyze_query_intent (ex_lib (Inr ex_client) []) prose_llm 0 ''who stole the car?'')
     = general_intent ''who stole the car?'' \<and>
   is_available timeline_llm \<and>
   generate_content timeline_llm 0 (intent_prompt ''when was the theft?'')
     = Inr ''{"type": "timeline", "search_terms": "theft night"}'' \<and>
   fst (analyze_query_intent (ex_lib (Inr ex_client) []) timeline_llm 0 ''when was the theft?'')
     = JDict [(''type'', JStr ''timeline''), (''search_terms'', JStr ''theft night'')]\<close>
proof -
  have j: "json_loads (ex_lib (Inr ex_client) []) (strip ''theft night'')
     = Inl (JSONDecodeError ''Expecting value: line 1 column 1 (char 0)'')"
    by (simp add: strip_theft ex_lib_def ex_loads_def)
  have h1: "\<not> is_available no_llm
     \<or> (\<exists>e. generate_content no_llm 0 (intent_prompt ''who stole the car?'') = Inl e)
     \<or> (\<exists>reply e. generate_content no_llm 0 (intent_prompt ''who stole the car?'') = Inr reply \<and>
           json_loads (ex_lib (Inr ex_client) []) (strip reply) = Inl e)
     \<or> (\<exists>reply v e. generate_content no_llm 0 (intent_prompt ''who stole the car?'') = Inr reply \<and>
           json_loads (ex_lib (Inr ex_client) []) (strip reply) = Inr v \<and>
           getitem v ''type'' = Inl e)"
    using no_llm_unavailable by blast
  have h2: "\<not> is_available prose_llm
     \<or> (\<exists>e. generate_content prose_llm 0 (intent_prompt ''who stole the car?'') = Inl e)
     \<or> (\<exists>reply e. generate_content prose_llm 0 (intent_prompt ''who stole the car?'') = Inr reply \<and>
           json_loads (ex_lib (Inr ex_client) []) (strip reply) = Inl e)
     \<or> (\<exists>reply v e. generate_content prose_llm 0 (intent_prompt ''who stole the car?'') = Inr reply \<and>
           json_loads (ex_lib (Inr ex_client) []) (strip reply) = Inr v \<and>
           getitem v ''type'' = Inl e)"
    using prose_generate j by blast
  have 1: "fst (analyze_query_intent (ex_lib (Inr ex_client) []) no_llm 0 ''who stole the car?'')
     = general_intent ''who stole the car?''"
    by (rule analyze_query_intent_fallback[THEN conjunct1, rule_format, OF h1])
  have 2: "fst (analyze_query_intent (ex_lib (Inr ex_client) []) prose_llm 0 ''who stole the car?'')
     = general_intent ''who stole the car?''"
    by (rule analyze_query_intent_fallback[THEN conjunct1, rule_format, OF h2])
  have a: "is_available timeline_llm"
    by (simp add: is_available_def timeline_llm_def)
  have t: "getitem (JDict [(''type'', JStr ''timeline''), (''search_terms'', JStr ''theft night'')])
             ''type'' = Inr (JStr ''timeline'')"
    by simp
  have 3: "fst (analyze_query_intent (ex_lib (Inr ex_client) []) timeline_llm 0
                 ''when was the theft?'')
     = JDict [(''type'', JStr ''timeline''), (''search_terms'', JStr ''theft night'')]"
    by (rule analyze_query_intent_fallback[THEN conjunct2, THEN conjunct2, rule_format,
          OF a timeline_generate timeline_loads t])
  show ?thesis
    by (intro conjI) (rule no_llm_unavailable 1 prose_generate j 2 a timeline_generate 3)+
qed


text \<open>
  The claim as it is written fails: the answer \<open>{"type": 42}\<close> is not of the structure
  asked for, and it is returned instead of the fallback.
\<close>

theorem analyze_query_intent_fallback_counterexample:
  \<open>generate_content number_llm 0 (intent_prompt ''who stole the car?'') = Inr ''{"type": 42}'' \<and>
   json_loads number_lib (strip ''{"type": 42}'') = Inr (JDict [(''type'', JInt 42)]) \<and>
   fst (analyze_query_intent number_lib number_llm 0 ''who stole the car?'')
     = JDict [(''type'', JInt 42)] \<and>
   JDict [(''type'', JInt 42)] \<noteq> general_intent ''who stole the car?''\<close>
  by (simp add: analyze_query_intent_def analyze_query_intent_try_def number_available
      number_generate number_parsed general_intent_def)

section \<open>No chunks, no answer from the model\<close>

lemma chat_answer_empty:
  "chat_answer L svc n q [] history = (ChatResponse no_information_answer [], n)"
  by (simp add: chat_answer_def)

text \<open>
  C5. For every query and history, when no chunk was retrieved the answer is the fixed
  message and no call is made to the language model: the number of calls stays what it
  was after the queries were planned, for the answering step and for the whole of
  \<open>chat_with_documents\<close>.
\<close>

theorem chat_with_documents_no_chunks:
  assumes "bq_configured cfg" and "chat_plan L svc q = (Inr qs, n)"
    and "new_storage L cfg = Inr S" and "fst (search_all S 3 qs ([], {}, [])) = []"
  shows "chat_answer L svc n q [] history = (ChatResponse no_information_answer [], n) \<and>
         chat_with_documents L cfg svc q history
           = (Inr (ChatResponse no_information_answer []), n, map (\<lambda>x. (x, 3)) qs)"
proof -
  obtain a seen searches where sa: "search_all S 3 qs ([], {}, []) = (a, seen, searches)"
    by (cases "search_all S 3 qs ([], {}, [])") auto
  have a: "a = []" using assms(4) sa by simp
  have s: "searches = map (\<lambda>x. (x, 3)) qs"
    using search_all_searches[of S 3 qs "[]" "{}" "[]"] sa by simp
  show ?thesis
    using assms(1,2,3) sa a s
    by (simp add: chat_with_documents_def chat_with_documents_try_def chat_answer_empty)
qed


theorem chat_with_documents_no_chunks_witness:
  "bq_configured ex_config \<and>
   chat_plan (ex_lib (Inr empty_client) []) prose_llm ''who stole the car?''
     = (Inr [JStr ''theft night''], 3) \<and>
   new_storage (ex_lib (Inr empty_client) []) ex_config = Inr (ex_storage empty_client) \<and>
   fst (search_all (ex_storage empty_client) 3 [JStr ''theft night''] ([], {}, [])) = [] \<and>
   chat_answer (ex_lib (Inr empty_client) []) prose_llm 3 ''who stole the car?'' [] None
     = (ChatResponse no_information_answer [], 3) \<and>
   chat_with_documents (ex_lib (Inr empty_client) []) ex_config prose_llm ''who stole the car?'' None
     = (Inr (ChatResponse no_information_answer []), 3, [(JStr ''theft night'', 3)])"
proof -
  note p = prose_chat_plan[of "Inr empty_client" "[]" "''who stole the car?''"]
  note s = ex_new_storage[of empty_client "[]"]
  note t = chat_with_documents_no_chunks[OF ex_configured p s empty_search, where history = None]
  show ?thesis
    using ex_configured p s empty_search t by simp
qed

text \<open>
  The guard is the one of \<open>chat_with_documents\<close>: \<open>generate_response\<close> has none of its
  own, and whenever it is called with the model available it calls the model.
\<close>

lemma generate_response_calls_model:
  "is_available svc \<Longrightarrow> n < snd (generate_response L svc n q cs h)"
  by (auto simp: generate_response_def generate_rag_prompt_def analyze_query_intent_def
      split: prod.splits sum.splits if_splits)

section \<open>The limit of each search\<close>

text \<open>
  The searches that \<open>search_document_chunks\<close> makes: one with the limit of the request
  when the language model is not available, and otherwise one for each query of
  \<open>search_queries\<close>, each with \<open>limit // len(search_queries) + 1\<close>.
\<close>

lemma search_document_chunks_searches:
  assumes "bq_configured cfg" and "new_storage L cfg = Inr S"
  shows "(\<not> is_available svc \<longrightarrow>
            snd (snd (search_document_chunks L cfg svc q limit)) = [(JStr q, limit)]) \<and>
         (\<forall>qs n. search_plan L svc q = (Inr (Some qs), n) \<longrightarrow>
            snd (snd (search_document_chunks L cfg svc q limit))
              = map (\<lambda>x. (x, limit div int (length qs) + 1)) qs)"
proof -
  have multi: "snd (snd (search_document_chunks L cfg svc q limit))
              = map (\<lambda>x. (x, limit div int (length qs) + 1)) qs"
    if "search_plan L svc q = (Inr (Some qs), n)" for qs n
  proof -
    obtain a seen searches where
      sa: "search_all S (limit div int (length qs) + 1) qs ([], {}, []) = (a, seen, searches)"
      by (cases "search_all S (limit div int (length qs) + 1) qs ([], {}, [])") auto
    have "searches = map (\<lambda>x. (x, limit div int (length qs) + 1)) qs"
      using search_all_searches[of S "limit div int (length qs) + 1" qs "[]" "{}" "[]"] sa by simp
    then show ?thesis
      using assms that sa
      by (simp add: search_document_chunks_def search_document_chunks_try_def)
  qed
  have single: "snd (snd (search_document_chunks L cfg svc q limit)) = [(JStr q, limit)]"
    if "\<not> is_available svc"
    using assms that
    by (simp add: search_document_chunks_def search_document_chunks_try_def search_plan_def)
  show ?thesis
    using multi single by blast
qed

text \<open>
  C2. The claim says that a single query is searched with the limit of the request, and
  each of several queries with \<open>limit // query_count + 1\<close>. The code does the second,
  and the first when the model is not available; but for the single query that the
  model enhances it searches with \<open>limit + 1\<close>. For the limit 10: one enhanced query
  is searched with 11, the query of the request without a model with 10, two queries
  with 6 each.
\<close>

theorem search_document_chunks_single_query_limit:
  "search_plan (ex_lib (Inr ex_client) []) prose_llm ''who stole the car?''
     = (Inr (Some [JStr ''theft night'']), 3) \<and>
   snd (snd (search_document_chunks (ex_lib (Inr ex_client) []) ex_config prose_llm
              ''who stole the car?'' 10)) = [(JStr ''theft night'', 11)] \<and>
   snd (snd (search_document_chunks (ex_lib (Inr ex_client) []) ex_config no_llm
              ''who stole the car?'' 10)) = [(JStr ''who stole the car?'', 10)] \<and>
   snd (snd (search_document_chunks (ex_lib (Inr ex_client) []) ex_config comparison_llm
              ''compare D1 and D2'' 10)) = [(JStr ''theft'', 6), (JStr ''burglary'', 6)]"
proof -
  note t = search_document_chunks_searches[OF ex_configured ex_new_storage]
  have 1: "snd (snd (search_document_chunks (ex_lib (Inr ex_client) []) ex_config prose_llm
              ''who stole the car?'' 10)) = [(JStr ''theft night'', 11)]"
    using t[where svc = prose_llm and q = "''who stole the car?''" and limit = 10, THEN conjunct2,
        rule_format, OF prose_search_plan] by simp
  have 2: "snd (snd (search_document_chunks (ex_lib (Inr ex_client) []) ex_config no_llm
              ''who stole the car?'' 10)) = [(JStr ''who stole the car?'', 10)]"
    by (rule t[THEN conjunct1, rule_format, OF no_llm_unavailable])
  have 3: "snd (snd (search_document_chunks (ex_lib (Inr ex_client) []) ex_config comparison_llm
              ''compare D1 and D2'' 10)) = [(JStr ''theft'', 6), (JStr ''burglary'', 6)]"
    using t[where svc = comparison_llm and q = "''compare D1 and D2''" and limit = 10,
        THEN conjunct2, rule_format, OF comparison_search_plan] by simp
  show ?thesis
    by (intro conjI) (rule prose_search_plan 1 2 3)+
qed

section \<open>The result of storing chunks\<close>

lemma make_rows_length:
  "make_rows L b cs metadata fname ipath acc = Inr rows \<Longrightarrow> length rows = length acc + length cs"
  by (induction cs arbitrary: acc) (auto split: sum.splits)

text \<open>
  C3, as amended. For the rows built from a batch of chunks: if the store reports any
  row error, \<open>store_chunks_in_bigquery\<close> returns a failure whose error text carries the
  errors the store reported, and no count; if the store reports none, it returns
  success with the number of chunks as the count.
\<close>

theorem store_chunks_reports_row_errors:
  assumes "make_rows L (if gcs_bucket_name S \<noteq> [] then gcs_bucket_name S else ''placeholder-bucket'')
             chunks metadata fname ipath [] = Inr rows"
  shows "(\<forall>errors. insert_rows_json (bq_client S) (bq_table S) rows = Inr errors \<longrightarrow> errors \<noteq> [] \<longrightarrow>
            store_chunks_in_bigquery L S chunks metadata fname ipath
              = \<lparr>success = False, result_doc_id = None, chunks_count = None,
                 error = Some (''BigQuery insert errors: '' @ repr_list errors)\<rparr>) \<and>
         (insert_rows_json (bq_client S) (bq_table S) rows = Inr [] \<longrightarrow>
            store_chunks_in_bigquery L S chunks metadata fname ipath
              = \<lparr>success = True, result_doc_id = None, chunks_count = Some (length chunks),
                 error = None\<rparr>)"
proof -
  have "length rows = length chunks"
    using make_rows_length[OF assms] by simp
  then show ?thesis
    using assms by (simp add: store_chunks_in_bigquery_def Let_def)
qed

text \<open>
  The claim as it is written fails: for one chunk and a store that reports an error for
  its row, the result has no count of the rows attempted.
\<close>

theorem store_chunks_reports_row_errors_counterexample:
  "insert_rows_json (bq_client (ex_storage failing_client)) (bq_table (ex_storage failing_client))
     [ex_bq_row] = Inr [''{index: 0, errors: [no such field]}''] \<and>
   store_chunks_in_bigquery (ex_lib (Inr failing_client) []) (ex_storage failing_client)
     [ex_chunk] (JDict []) ''fir.pdf'' ''QmHash''
   = \<lparr>success = False, result_doc_id = None, chunks_count = None,
      error = Some ''BigQuery insert errors: [{index: 0, errors: [no such field]}]''\<rparr>"
  by (simp add: store_chunks_in_bigquery_def Let_def ex_storage_def failing_client_def ex_lib_def
      ex_chunk_def ex_bq_row_def repr_list_def)

theorem store_chunks_reports_row_errors_witness:
  "make_rows (ex_lib (Inr failing_client) [])
     (if gcs_bucket_name (ex_storage failing_client) \<noteq> [] then gcs_bucket_name (ex_storage failing_client)
      else ''placeholder-bucket'')
     [ex_chunk] (JDict []) ''fir.pdf'' ''QmHash'' [] = Inr [ex_bq_row] \<and>
   insert_rows_json (bq_client (ex_storage failing_client)) (bq_table (ex_storage failing_client))
     [ex_bq_row] = Inr [''{index: 0, errors: [no such field]}''] \<and>
   store_chunks_in_bigquery (ex_lib (Inr failing_client) []) (ex_storage failing_client)
     [ex_chunk] (JDict []) ''fir.pdf'' ''QmHash''
   = \<lparr>success = False, result_doc_id = None, chunks_count = None,
      error = Some (''BigQuery insert errors: '' @ repr_list [''{index: 0, errors: [no such field]}''])\<rparr> \<and>
   insert_rows_json (bq_client (ex_storage ex_client)) (bq_table (ex_storage ex_client))
     [ex_bq_row] = Inr [] \<and>
   store_chunks_in_bigquery (ex_lib (Inr ex_client) []) (ex_storage ex_client)
     [ex_chunk] (JDict []) ''fir.pdf'' ''QmHash''
   = \<lparr>success = True, result_doc_id = None, chunks_count = Some (length [ex_chunk]), error = None\<rparr>"
proof -
  have i1: "insert_rows_json (bq_client (ex_storage failing_client)) (bq_table (ex_storage failing_client))
     [ex_bq_row] = Inr [''{index: 0, errors: [no such field]}'']"
    by (simp add: ex_storage_def failing_client_def)
  have i2: "insert_rows_json (bq_client (ex_storage ex_client)) (bq_table (ex_storage ex_client))
     [ex_bq_row] = Inr []"
    by (simp add: ex_storage_def ex_client_def)
  note t1 = store_chunks_reports_row_errors[OF ex_make_rows'[of "Inr failing_client" "[]" failing_client]]
  note t2 = store_chunks_reports_row_errors[OF ex_make_rows'[of "Inr ex_client" "[]" ex_client]]
  have 1: "store_chunks_in_bigquery (ex_lib (Inr failing_client) []) (ex_storage failing_client)
     [ex_chunk] (JDict []) ''fir.pdf'' ''QmHash''
   = \<lparr>success = False, result_doc_id = None, chunks_count = None,
      error = Some (''BigQuery insert errors: '' @ repr_list [''{index: 0, errors: [no such field]}''])\<rparr>"
    using t1 i1 by blast
  have 2: "store_chunks_in_bigquery (ex_lib (Inr ex_client) []) (ex_storage ex_client)
     [ex_chunk] (JDict []) ''fir.pdf'' ''QmHash''
   = \<lparr>success = True, result_doc_id = None, chunks_count = Some (length [ex_chunk]), error = None\<rparr>"
    using t2 i2 by blast
  show ?thesis
    using ex_make_rows'[of "Inr failing_client" "[]" failing_client] i1 i2 1 2 by blast
qed

section \<open>The category of an intent\<close>

text \<open>
  C4, as amended. For every query string, if the category that the model's parsed
  answer carries is one of comparison, pattern, timeline, entity, relationship and
  general, then so is the category of the intent that \<open>analyze_query_intent\<close> returns
  (general in every fallback case); the classifier itself does not check the category.
\<close>

theorem analyze_query_intent_category:
  assumes "\<forall>text v t. generate_content svc n (intent_prompt q) = Inr text \<longrightarrow>
             json_loads L (strip text) = Inr v \<longrightarrow> getitem v ''type'' = Inr t \<longrightarrow>
             t \<in> set intent_categories"
  shows "\<exists>t \<in> set intent_categories. getitem (fst (analyze_query_intent L svc n q)) ''type'' = Inr t"
proof -
  have g: "getitem (general_intent q) ''type'' = Inr (JStr ''general'')"
    by (simp add: general_intent_def)
  have c: "JStr ''general'' \<in> set intent_categories"
    by (simp add: intent_categories_def)
  show ?thesis
  proof (cases "fst (analyze_query_intent L svc n q) = general_intent q")
    case True
    then show ?thesis using g c by auto
  next
    case False
    then obtain reply t where "generate_content svc n (intent_prompt q) = Inr reply"
      "json_loads L (strip reply) = Inr (fst (analyze_query_intent L svc n q))"
      "getitem (fst (analyze_query_intent L svc n q)) ''type'' = Inr t"
      by (auto simp: analyze_query_intent_def analyze_query_intent_try_def
          split: if_splits sum.splits exn.splits)
    then show ?thesis using assms by blast
  qed
qed


theorem analyze_query_intent_category_witness:
  \<open>generate_content timeline_llm 0 (intent_prompt ''when was the theft?'')
     = Inr ''{"type": "timeline", "search_terms": "theft night"}'' \<and>
   json_loads (ex_lib (Inr ex_client) [])
       (strip ''{"type": "timeline", "search_terms": "theft night"}'')
     = Inr (JDict [(''type'', JStr ''timeline''), (''search_terms'', JStr ''theft night'')]) \<and>
   JStr ''timeline'' \<in> set intent_categories \<and>
   (\<exists>t. t \<in> set intent_categories \<and>
      getitem (fst (analyze_query_intent (ex_lib (Inr ex_client) []) timeline_llm 0
                      ''when was the theft?'')) ''type'' = Inr t)\<close>
proof -
  have c: "JStr ''timeline'' \<in> set intent_categories"
    by (simp add: intent_categories_def)
  show ?thesis
    using timeline_generate timeline_loads c analyze_query_intent_category[OF timeline_obeys]
    by blast
qed

text \<open>
  The claim as it is written fails: when the model answers with a JSON object whose
  \<open>type\<close> is outside the list, the classifier returns that object as it is.
\<close>

theorem analyze_query_intent_category_counterexample:
  "getitem (fst (analyze_query_intent (ex_lib (Inr ex_client) []) banana_llm 0
                   ''who stole the car?'')) ''type'' = Inr (JStr ''banana'') \<and>
   JStr ''banana'' \<notin> set intent_categories"
  by (simp add: banana_intent intent_categories_def)

section \<open>Ingestion and the primary record\<close>







end
